theory Spec2Isabelle
  imports Main "HOL-Library.Sublist"
begin

section \<open>Strings\<close>

text \<open>
  Python \<open>str\<close> values are carried as \<^typ>\<open>string\<close>, the UTF-8 bytes of the text.
  Where the program looks at the characters of a text (\<open>strip\<close>, \<open>lower\<close>, the regular
  expression, \<open>int\<close>), the model decodes the bytes into the list of code points and works
  on that list.
\<close>

definition digit_char :: "nat \<Rightarrow> char" where
  "digit_char d = ''0123456789'' ! d"

text \<open>\<open>str(n)\<close> for a non-negative integer: its decimal digits.\<close>

function str_nat :: "nat \<Rightarrow> string" where
  "str_nat n = (if n < 10 then [digit_char n] else str_nat (n div 10) @ [digit_char (n mod 10)])"
  by pat_completeness auto
termination
  by (relation "measure id") auto

declare str_nat.simps [simp del]

text \<open>\<open>s.rstrip('/')\<close>: every trailing slash is removed.\<close>

definition rstrip_slash :: "string \<Rightarrow> string" where
  "rstrip_slash s = rev (dropWhile (\<lambda>c. c = CHR ''/'') (rev s))"

subsection \<open>Code points and character classes\<close>

text \<open>
  The code points of a text, from its UTF-8 bytes: a byte below \<open>0xC0\<close> stands for itself,
  a byte from \<open>0xC0\<close> starts a character of two bytes, from \<open>0xE0\<close> of three, from
  \<open>0xF0\<close> of four, and each following byte gives six bits. \<open>cont bs i\<close> is the six bits
  of the byte at position \<open>i\<close> (0 past the end, which the bytes of a Python \<open>str\<close>
  never reach).
\<close>

definition cont :: "string \<Rightarrow> nat \<Rightarrow> nat" where
  "cont bs i = (if i < length bs then of_char (bs ! i) mod 64 else 0)"

function decode :: "string \<Rightarrow> nat list" where
  "decode [] = []"
| "decode (b # bs) =
     (if (of_char b :: nat) < 0xC0 then of_char b # decode bs
      else if (of_char b :: nat) < 0xE0 then
        ((of_char b - 0xC0) * 64 + cont bs 0) # decode (drop 1 bs)
      else if (of_char b :: nat) < 0xF0 then
        ((of_char b - 0xE0) * 4096 + cont bs 0 * 64 + cont bs 1) # decode (drop 2 bs)
      else
        ((of_char b - 0xF0) * 262144 + cont bs 0 * 4096 + cont bs 1 * 64 + cont bs 2)
          # decode (drop 3 bs))"
  by pat_completeness auto
termination
  by (relation "measure length") auto

declare decode.simps [simp del]

text \<open>
  Python's white space (\<open>str.isspace\<close>, what \<open>strip\<close> removes and what \<open>\s\<close> matches in
  a pattern on \<open>str\<close>): these 29 code points.
\<close>

definition is_space :: "nat \<Rightarrow> bool" where
  "is_space c \<longleftrightarrow>
     (0x09 \<le> c \<and> c \<le> 0x0D) \<or> (0x1C \<le> c \<and> c \<le> 0x20) \<or> c = 0x85 \<or> c = 0xA0
     \<or> c = 0x1680 \<or> (0x2000 \<le> c \<and> c \<le> 0x200A) \<or> c = 0x2028 \<or> c = 0x2029
     \<or> c = 0x202F \<or> c = 0x205F \<or> c = 0x3000"

text \<open>\<open>s.strip()\<close>, on the code points of \<open>s\<close>.\<close>

definition strip :: "nat list \<Rightarrow> nat list" where
  "strip s = rev (dropWhile is_space (rev (dropWhile is_space s)))"

text \<open>
  The decimal digits and the lower-case mapping outside ASCII come from the Unicode
  database of the Python that runs the program, which grows from one version to the
  next; the model takes them as they are there. \<open>non_ascii_decimal c\<close> is the value of
  the code point \<open>c\<close> when it is a decimal digit (category Nd), and \<open>non_ascii_lower s\<close>
  is \<open>s.lower()\<close> for a text \<open>s\<close> that has a character outside ASCII.
\<close>

record unicode_db =
  non_ascii_decimal :: "nat \<Rightarrow> nat option"
  non_ascii_lower :: "nat list \<Rightarrow> nat list"

text \<open>
  The value of a decimal digit, as \<open>int\<close> reads it; the class \<open>\d\<close> of a pattern on
  \<open>str\<close> is the code points that have one. In ASCII these are \<open>0\<close> to \<open>9\<close>.
\<close>

definition decimal :: "unicode_db \<Rightarrow> nat \<Rightarrow> nat option" where
  "decimal ud c =
     (if c < 128 then (if 48 \<le> c \<and> c \<le> 57 then Some (c - 48) else None)
      else non_ascii_decimal ud c)"

definition is_digit :: "unicode_db \<Rightarrow> nat \<Rightarrow> bool" where
  "is_digit ud c \<longleftrightarrow> decimal ud c \<noteq> None"

text \<open>
  \<open>s.lower()\<close>: a text with ASCII characters only has its capital letters replaced;
  any other text is mapped by the Unicode database.
\<close>

definition ascii_lower :: "nat \<Rightarrow> nat" where
  "ascii_lower c = (if 65 \<le> c \<and> c \<le> 90 then c + 32 else c)"

definition lower :: "unicode_db \<Rightarrow> nat list \<Rightarrow> nat list" where
  "lower ud s = (if list_all (\<lambda>c. c < 128) s then map ascii_lower s else non_ascii_lower ud s)"

text \<open>\<open>int(ds)\<close> on a text of decimal digits.\<close>

definition int_of_digits :: "unicode_db \<Rightarrow> nat list \<Rightarrow> nat" where
  "int_of_digits ud ds =
     foldl (\<lambda>a c. 10 * a + (case decimal ud c of Some d \<Rightarrow> d | None \<Rightarrow> 0)) 0 ds"

section \<open>JSON values and HTTP outcomes\<close>

text \<open>
  The values that \<open>response.json()\<close> returns. The code reads no number, so numbers
  are kept as integers.
\<close>

datatype json =
    JNull
  | JBool bool
  | JNum int
  | JStr string
  | JArr "json list"
  | JObj "(string \<times> json) list"

text \<open>
  A decoded JSON object is a Python \<open>dict\<close>; when a key is repeated in the document the
  last occurrence is the one the dict holds.
\<close>

definition dict_get :: "(string \<times> json) list \<Rightarrow> string \<Rightarrow> json option" where
  "dict_get kvs k = map_of (rev kvs) k"

text \<open>
  The exceptions the code tells apart, one constructor for every other exception that
  derives from \<open>Exception\<close>, and the exceptions that derive from \<open>BaseException\<close> only:
  \<open>asyncio.CancelledError\<close>, raised at an \<open>await\<close> when the call is cancelled, and the
  others (\<open>KeyboardInterrupt\<close>, \<open>SystemExit\<close>).
\<close>

datatype exn =
    TimeoutException
  | NetworkError
  | JSONDecodeError
  | AttributeError
  | ValidationError
  | OtherException string
  | CancelledError
  | OtherBaseException string

text \<open>What a clause \<open>except Exception\<close> catches.\<close>

definition is_exception :: "exn \<Rightarrow> bool" where
  "is_exception e = (case e of CancelledError \<Rightarrow> False | OtherBaseException _ \<Rightarrow> False | _ \<Rightarrow> True)"

text \<open>
  What \<open>await client.get(...)\<close> does: it returns a response (status code, and the body as
  \<open>response.json()\<close> decodes it, \<open>None\<close> when the body is not JSON), or it raises.
  \<open>Unopened\<close> is the case where there is no client to send the request: the statement
  \<open>async with httpx.AsyncClient(timeout=timeout) as client\<close> raised while it built or
  entered the client.
\<close>

datatype http_outcome =
    Response nat "json option"
  | Raises exn
  | Unopened exn

section \<open>Credential validation (gitlab\_validator.py)\<close>

record GitLabValidationResult =
  is_valid :: bool
  error_message :: "string option"
  error_code :: "string option"
  gitlab_username :: "string option"

definition failure :: "string \<Rightarrow> string \<Rightarrow> GitLabValidationResult" where
  "failure msg code =
     \<lparr>is_valid = False, error_message = Some msg, error_code = Some code,
      gitlab_username = None\<rparr>"

text \<open>
  The status-200 branch: \<open>data = response.json()\<close>, \<open>username = data.get('username',
  'unknown')\<close>, then the result model is built with \<open>gitlab_username=username\<close>, a field
  of type \<open>Optional[str]\<close>. A body that is not JSON, a body that is not an object and a
  username that is neither a string nor null each raise.
\<close>

definition response_ok :: "json option \<Rightarrow> exn + GitLabValidationResult" where
  "response_ok body =
     (case body of
        None \<Rightarrow> Inl JSONDecodeError
      | Some (JObj kvs) \<Rightarrow>
          (case dict_get kvs ''username'' of
             None \<Rightarrow> Inr \<lparr>is_valid = True, error_message = None, error_code = None,
                          gitlab_username = Some ''unknown''\<rparr>
           | Some (JStr u) \<Rightarrow> Inr \<lparr>is_valid = True, error_message = None, error_code = None,
                          gitlab_username = Some u\<rparr>
           | Some JNull \<Rightarrow> Inr \<lparr>is_valid = True, error_message = None, error_code = None,
                          gitlab_username = None\<rparr>
           | Some _ \<Rightarrow> Inl ValidationError)
      | Some _ \<Rightarrow> Inl AttributeError)"

text \<open>
  The body of the \<open>try\<close> block: the request and the chain over the status code. The
  block is entered with a client, so the case \<open>Unopened\<close> does not reach it.
\<close>

definition check_response :: "http_outcome \<Rightarrow> exn + GitLabValidationResult" where
  "check_response out =
     (case out of
        Raises e \<Rightarrow> Inl e
      | Unopened e \<Rightarrow> Inl e
      | Response status_code body \<Rightarrow>
          if status_code = 200 then response_ok body
          else if status_code = 401 then
            Inr (failure ''Invalid access token or token expired'' ''invalid_token'')
          else if status_code = 403 then
            Inr (failure ''Token lacks required permissions'' ''insufficient_permissions'')
          else if status_code = 404 then
            Inr (failure ''GitLab API endpoint not found - check URL'' ''not_found'')
          else
            Inr (failure (''GitLab API error: '' @ str_nat status_code) ''api_error''))"

text \<open>
  The three \<open>except\<close> clauses, in the source's order: \<open>httpx.TimeoutException\<close>,
  \<open>httpx.NetworkError\<close>, \<open>Exception\<close>. An exception that none of them catches leaves
  the function (\<open>Inl\<close>).
\<close>

definition handlers :: "exn \<Rightarrow> exn + GitLabValidationResult" where
  "handlers e =
     (if e = TimeoutException then
        Inr (failure ''Connection timeout - GitLab instance unreachable'' ''timeout'')
      else if e = NetworkError then
        Inr (failure ''Network error - could not reach GitLab instance'' ''network_error'')
      else if is_exception e then
        Inr (failure ''Unexpected error during validation'' ''unknown_error'')
      else Inl e)"

text \<open>
  \<open>validate_gitlab_credentials\<close>. \<open>http_url_ok\<close> is pydantic's \<open>HttpUrl\<close> check (true when
  it raises no \<open>ValidationError\<close>); \<open>http_get url token\<close> is the outcome of the GET request
  to \<open>url\<close> with the token in the \<open>PRIVATE-TOKEN\<close> header. The client is built outside
  the \<open>try\<close> block, so what it raises leaves the function whatever it is. The result is
  a sum: \<open>Inr\<close> is a returned result and \<open>Inl\<close> an exception that reaches the caller.
\<close>

definition validate_gitlab_credentials ::
  "(string \<Rightarrow> bool) \<Rightarrow> (string \<Rightarrow> string \<Rightarrow> http_outcome) \<Rightarrow> string \<Rightarrow> string
     \<Rightarrow> exn + GitLabValidationResult" where
  "validate_gitlab_credentials http_url_ok http_get gitlab_url access_token =
     (let gitlab_url = rstrip_slash gitlab_url in
      if \<not> http_url_ok gitlab_url then
        Inr (failure ''Invalid GitLab URL format'' ''invalid_url'')
      else
        let api_url = gitlab_url @ ''/api/v4/user'' in
        case http_get api_url access_token of
          Unopened e \<Rightarrow> Inl e
        | out \<Rightarrow>
            (case check_response out of
               Inr r \<Rightarrow> Inr r
             | Inl e \<Rightarrow> handlers e))"

section \<open>Credential store (models.py, schemas.py, llm\_service.py)\<close>

text \<open>
  A row of the \<open>gitlab_configs\<close> table. The primary key \<open>id\<close> is held as the string
  form of the UUID (the field is named \<open>id'\<close> here, \<open>id\<close> being HOL's identity), the
  encrypted token as a byte string, the timestamps as numbers.
\<close>

record GitLabConfig =
  id' :: string
  user_id :: string
  config_name :: "string option"
  gitlab_url :: string
  access_token_encrypted :: string
  project_id :: "string option"
  is_active :: bool
  created_at :: nat
  updated_at :: nat

text \<open>
  The request and response schemas. Their fields carry a prefix (\<open>c_\<close>, \<open>u_\<close>, \<open>r_\<close>)
  because the source uses the same field names in all of them.
\<close>

record GitLabConfigCreate =
  c_config_name :: "string option"
  c_gitlab_url :: string
  c_access_token :: string
  c_project_id :: "string option"

record GitLabConfigUpdate =
  u_config_name :: "string option"
  u_gitlab_url :: "string option"
  u_access_token :: "string option"
  u_project_id :: "string option"
  u_is_active :: "bool option"

record GitLabConfigResponse =
  r_id :: string
  r_config_name :: "string option"
  r_gitlab_url :: string
  r_project_id :: "string option"
  r_is_active :: bool
  r_validation_message :: "string option"
  r_validation_error_code :: "string option"
  r_gitlab_username :: "string option"
  r_created_at :: nat
  r_updated_at :: nat

text \<open>
  What an endpoint raises: an \<open>HTTPException\<close> with its status code and detail, or an
  exception of a callee that it does not catch.
\<close>

datatype fault =
    HTTPException nat string
  | Uncaught exn

text \<open>
  What a request finds outside the program: the URL check and the GitLab server (see
  \<open>validate_gitlab_credentials\<close>), the ciphertext that \<open>encrypt_token\<close> produces for
  a token in this request, the UUID the database gives a new row, and the clock.
\<close>

record world =
  http_url_ok :: "string \<Rightarrow> bool"
  http_get :: "string \<Rightarrow> string \<Rightarrow> http_outcome"
  encrypt_token :: "string \<Rightarrow> string"
  new_uuid :: string
  now :: nat

text \<open>
  Python's \<open>x or default\<close> on an optional string: \<open>None\<close> and the empty string are both
  false.
\<close>

definition or_else :: "string option \<Rightarrow> string \<Rightarrow> string" where
  "or_else x d = (case x of None \<Rightarrow> d | Some s \<Rightarrow> if s = [] then d else s)"

text \<open>
  The query \<open>db.query(GitLabConfig).filter(GitLabConfig.id == config_id,
  GitLabConfig.user_id == current_user.id).first()\<close> of the three endpoints below.
\<close>

definition query_config :: "GitLabConfig list \<Rightarrow> string \<Rightarrow> string \<Rightarrow> GitLabConfig option" where
  "query_config db config_id uid = find (\<lambda>c. id' c = config_id \<and> user_id c = uid) db"

text \<open>The response built from a row alone: the three validation fields keep their default.\<close>

definition from_row :: "GitLabConfig \<Rightarrow> GitLabConfigResponse" where
  "from_row c =
     \<lparr>r_id = id' c, r_config_name = config_name c, r_gitlab_url = gitlab_url c,
      r_project_id = project_id c, r_is_active = is_active c,
      r_validation_message = None, r_validation_error_code = None,
      r_gitlab_username = None, r_created_at = created_at c, r_updated_at = updated_at c\<rparr>"

text \<open>The \<open>response_dict\<close> of create and update: the row and the validation details.\<close>

definition response_dict :: "GitLabConfig \<Rightarrow> GitLabValidationResult \<Rightarrow> GitLabConfigResponse" where
  "response_dict c v =
     (from_row c)
       \<lparr>r_validation_message :=
          Some (or_else (error_message v) ''Credentials validated successfully''),
        r_validation_error_code := error_code v,
        r_gitlab_username := gitlab_username v\<rparr>"

text \<open>
  Every endpoint returns what it answers (a fault or a response) together with the table
  after the request; a request that raises before \<open>db.commit()\<close> leaves the table as
  it was.
\<close>

definition create_gitlab_config ::
  "world \<Rightarrow> string \<Rightarrow> GitLabConfigCreate \<Rightarrow> GitLabConfig list
     \<Rightarrow> (fault + GitLabConfigResponse) \<times> GitLabConfig list" where
  "create_gitlab_config w uid config_data db =
     (case find (\<lambda>c. user_id c = uid \<and> gitlab_url c = c_gitlab_url config_data) db of
        Some existing_config \<Rightarrow>
          (Inl (HTTPException 400 ''GitLab configuration for this URL already exists''), db)
      | None \<Rightarrow>
          (case validate_gitlab_credentials (http_url_ok w) (http_get w)
                  (c_gitlab_url config_data) (c_access_token config_data) of
             Inl e \<Rightarrow> (Inl (Uncaught e), db)
           | Inr validation_result \<Rightarrow>
               let encrypted_token = encrypt_token w (c_access_token config_data);
                   new_config =
                     \<lparr>id' = new_uuid w, user_id = uid,
                      config_name = c_config_name config_data,
                      gitlab_url = c_gitlab_url config_data,
                      access_token_encrypted = encrypted_token,
                      project_id = c_project_id config_data,
                      is_active = is_valid validation_result,
                      created_at = now w, updated_at = now w\<rparr>
               in (Inr (response_dict new_config validation_result), db @ [new_config])))"

definition get_gitlab_config ::
  "string \<Rightarrow> string \<Rightarrow> GitLabConfig list
     \<Rightarrow> (fault + GitLabConfigResponse) \<times> GitLabConfig list" where
  "get_gitlab_config uid config_id db =
     (case query_config db config_id uid of
        None \<Rightarrow> (Inl (HTTPException 404 ''GitLab configuration not found''), db)
      | Some config \<Rightarrow> (Inr (from_row config), db))"

text \<open>
  The first step of \<open>update_gitlab_config\<close>: when the request carries a token that is
  not blank (\<open>access_token.strip()\<close> is not empty), the credentials are validated (against the new URL when one is given, the
  stored one otherwise), and the token and \<open>is_active\<close> of the row are assigned.
\<close>

definition revalidate ::
  "world \<Rightarrow> GitLabConfigUpdate \<Rightarrow> GitLabConfig
     \<Rightarrow> exn + (GitLabValidationResult option \<times> GitLabConfig)" where
  "revalidate w config_update config =
     (case u_access_token config_update of
        None \<Rightarrow> Inr (None, config)
      | Some access_token \<Rightarrow>
          if strip (decode access_token) \<noteq> [] then
            (case validate_gitlab_credentials (http_url_ok w) (http_get w)
                    (or_else (u_gitlab_url config_update) (gitlab_url config))
                    access_token of
               Inl e \<Rightarrow> Inl e
             | Inr validation_result \<Rightarrow>
                 Inr (Some validation_result,
                      config\<lparr>access_token_encrypted := encrypt_token w access_token,
                             is_active := is_valid validation_result\<rparr>))
          else Inr (None, config))"

text \<open>The assignments to the other fields, in the source's order.\<close>

definition assign_fields :: "world \<Rightarrow> GitLabConfigUpdate \<Rightarrow> GitLabConfig \<Rightarrow> GitLabConfig" where
  "assign_fields w config_update config =
     (let c1 = (case u_config_name config_update of
                  None \<Rightarrow> config | Some n \<Rightarrow> config\<lparr>config_name := Some n\<rparr>);
          c2 = (case u_gitlab_url config_update of
                  None \<Rightarrow> c1 | Some u \<Rightarrow> c1\<lparr>gitlab_url := u\<rparr>);
          c3 = (case u_project_id config_update of
                  None \<Rightarrow> c2 | Some p \<Rightarrow> c2\<lparr>project_id := Some p\<rparr>);
          c4 = (case u_is_active config_update of
                  None \<Rightarrow> c3
                | Some b \<Rightarrow> if u_access_token config_update = None
                            then c3\<lparr>is_active := b\<rparr> else c3)
      in c4\<lparr>updated_at := now w\<rparr>)"

text \<open>The \<open>UPDATE\<close> and \<open>DELETE\<close> that the commit issues address the row by its primary key.\<close>

definition store_row :: "GitLabConfig \<Rightarrow> GitLabConfig list \<Rightarrow> GitLabConfig list" where
  "store_row c db = map (\<lambda>r. if id' r = id' c then c else r) db"

definition delete_row :: "GitLabConfig \<Rightarrow> GitLabConfig list \<Rightarrow> GitLabConfig list" where
  "delete_row c db = filter (\<lambda>r. id' r \<noteq> id' c) db"

definition update_gitlab_config ::
  "world \<Rightarrow> string \<Rightarrow> string \<Rightarrow> GitLabConfigUpdate \<Rightarrow> GitLabConfig list
     \<Rightarrow> (fault + GitLabConfigResponse) \<times> GitLabConfig list" where
  "update_gitlab_config w uid config_id config_update db =
     (case query_config db config_id uid of
        None \<Rightarrow> (Inl (HTTPException 404 ''GitLab configuration not found''), db)
      | Some config \<Rightarrow>
          (case revalidate w config_update config of
             Inl e \<Rightarrow> (Inl (Uncaught e), db)
           | Inr (validation_result, config) \<Rightarrow>
               let config = assign_fields w config_update config;
                   db = store_row config db
               in (case validation_result of
                     Some v \<Rightarrow> (Inr (response_dict config v), db)
                   | None \<Rightarrow> (Inr (from_row config), db))))"

definition delete_gitlab_config ::
  "string \<Rightarrow> string \<Rightarrow> GitLabConfig list \<Rightarrow> (fault + unit) \<times> GitLabConfig list" where
  "delete_gitlab_config uid config_id db =
     (case query_config db config_id uid of
        None \<Rightarrow> (Inl (HTTPException 404 ''GitLab configuration not found''), db)
      | Some config \<Rightarrow> (Inr (), delete_row config db))"

section \<open>Text helpers of the agent and the tools\<close>

definition nl :: string where
  "nl = [CHR 0x0A]"

text \<open>\<open>sep.join(parts)\<close>.\<close>

fun join :: "string \<Rightarrow> string list \<Rightarrow> string" where
  "join sep [] = []"
| "join sep [x] = x"
| "join sep (x # y # ys) = x @ sep @ join sep (y # ys)"

text \<open>\<open>needle in hay\<close> on texts.\<close>

fun contains :: "'a list \<Rightarrow> 'a list \<Rightarrow> bool" where
  "contains needle [] = (needle = [])"
| "contains needle (c # cs) = (prefix needle (c # cs) \<or> contains needle cs)"

text \<open>The symbols outside ASCII that the messages use, as their UTF-8 bytes.\<close>

definition check_mark :: string where
  "check_mark = [CHR 0xE2, CHR 0x9C, CHR 0x93]"

definition warning_sign :: string where
  "warning_sign = [CHR 0xE2, CHR 0x9A, CHR 0xA0]"

definition cross_mark :: string where
  "cross_mark = [CHR 0xE2, CHR 0x9D, CHR 0x8C]"

definition right_arrow :: string where
  "right_arrow = [CHR 0xE2, CHR 0x86, CHR 0x92]"

definition thumbs_up :: string where
  "thumbs_up = [CHR 0xF0, CHR 0x9F, CHR 0x91, CHR 0x8D]"

definition thumbs_down :: string where
  "thumbs_down = [CHR 0xF0, CHR 0x9F, CHR 0x91, CHR 0x8E]"

definition clipboard :: string where
  "clipboard = [CHR 0xF0, CHR 0x9F, CHR 0x93, CHR 0x8B]"

section \<open>Command dispatcher (gitlab\_agent.py)\<close>

text \<open>
  The agent object: the user's configurations and the one selected. The module
  \<open>gitlab_tools\<close> keeps the configuration its tools use in the global
  \<open>_current_gitlab_config\<close>; the functions below take it and return it.
\<close>

record GitLabAgent =
  agent_user_id :: string
  gitlab_configs :: "GitLabConfig list"
  selected_config :: "GitLabConfig option"

text \<open>One entry of \<open>list_gitlab_configs\<close>, for the pair that \<open>enumerate\<close> yields.\<close>

definition config_entry :: "nat \<times> GitLabConfig \<Rightarrow> string" where
  "config_entry p =
     (case p of (idx, config) \<Rightarrow>
        let status = (if is_active config then check_mark @ '' Valid''
                      else warning_sign @ '' Invalid'');
            name = or_else (config_name config) (''Config '' @ str_nat idx)
        in str_nat idx @ ''. '' @ name @ nl
           @ ''   URL: '' @ gitlab_url config @ nl
           @ ''   Status: '' @ status @ nl
           @ ''   ID: '' @ id' config)"

definition list_gitlab_configs :: "GitLabAgent \<Rightarrow> string" where
  "list_gitlab_configs agent =
     (if gitlab_configs agent = [] then
        ''No GitLab configurations found. Please add a GitLab configuration in settings first.''
      else join (nl @ nl) (map config_entry (enumerate 1 (gitlab_configs agent))))"

text \<open>\<open>select_config_by_id\<close>: the answer and the agent afterwards.\<close>

definition select_config_by_id :: "GitLabAgent \<Rightarrow> string \<Rightarrow> bool \<times> GitLabAgent" where
  "select_config_by_id agent config_id =
     (case find (\<lambda>config. id' config = config_id) (gitlab_configs agent) of
        Some config \<Rightarrow> (True, agent\<lparr>selected_config := Some config\<rparr>)
      | None \<Rightarrow> (False, agent))"

text \<open>
  The regular expression \<open>(?:!|mr|merge\s+request)\s*(\d+)\<close> on the code points of a
  text, tried at the start of the text. \<open>alternative\<close> is the group of three
  alternatives and returns the rest of the text after it. The three alternatives start
  differently, so at most one of them applies at a position, and the white space of the
  third is the longest run: \<open>request\<close> does not start with white space, so no shorter
  run can be followed by it.
\<close>

definition alternative :: "nat list \<Rightarrow> nat list option" where
  "alternative s =
     (if prefix (decode ''!'') s then Some (drop 1 s)
      else if prefix (decode ''mr'') s then Some (drop 2 s)
      else if prefix (decode ''merge'') s then
        (let r = drop 5 s in
         if takeWhile is_space r \<noteq> [] \<and> prefix (decode ''request'') (dropWhile is_space r)
         then Some (drop 7 (dropWhile is_space r)) else None)
      else None)"

text \<open>
  The rest of the pattern, \<open>\s*(\d+)\<close>, at the start of a text; the result is what
  group 1 captures. Both repetitions are greedy: white space is taken first, and given
  back only when no digit follows it; then the longest run of digits is taken.
\<close>

fun group_one :: "unicode_db \<Rightarrow> nat list \<Rightarrow> nat list option" where
  "group_one ud [] = None"
| "group_one ud (c # cs) =
     (case (if is_space c then group_one ud cs else None) of
        Some ds \<Rightarrow> Some ds
      | None \<Rightarrow> if is_digit ud c then Some (takeWhile (is_digit ud) (c # cs)) else None)"

definition match_here :: "unicode_db \<Rightarrow> nat list \<Rightarrow> nat list option" where
  "match_here ud s = (case alternative s of None \<Rightarrow> None | Some r \<Rightarrow> group_one ud r)"

text \<open>\<open>re.search\<close>: the match at the leftmost position that has one.\<close>

fun re_search :: "unicode_db \<Rightarrow> nat list \<Rightarrow> nat list option" where
  "re_search ud [] = match_here ud []"
| "re_search ud (c # cs) =
     (case match_here ud (c # cs) of Some ds \<Rightarrow> Some ds | None \<Rightarrow> re_search ud cs)"

text \<open>
  What the regular expression says, without an algorithm: \<open>separator\<close> is the language
  of the group of alternatives (\<open>!\<close>, \<open>mr\<close>, or \<open>merge\<close> and \<open>request\<close> with white space
  between them), and a text has a merge-request reference when a separator occurs in it,
  followed by any white space and a digit.
\<close>

definition separator :: "nat list \<Rightarrow> bool" where
  "separator tok \<longleftrightarrow>
     tok = decode ''!'' \<or> tok = decode ''mr''
     \<or> (\<exists>sp. sp \<noteq> [] \<and> list_all is_space sp
              \<and> tok = decode ''merge'' @ sp @ decode ''request'')"

definition mr_reference :: "unicode_db \<Rightarrow> nat list \<Rightarrow> bool" where
  "mr_reference ud s \<longleftrightarrow>
     (\<exists>pre tok ws d rest.
        s = pre @ tok @ ws @ d # rest \<and> separator tok \<and> list_all is_space ws
        \<and> is_digit ud d)"

text \<open>
  The two tools that \<open>handle_query\<close> calls, as functions of the configuration in
  \<open>_current_gitlab_config\<close> and of their argument: what they answer depends on the
  GitLab server.
\<close>

record tools =
  list_merge_requests_tool :: "GitLabConfig option \<Rightarrow> string \<Rightarrow> string"
  get_merge_request_details_tool :: "GitLabConfig option \<Rightarrow> nat \<Rightarrow> string"

text \<open>
  The test \<open>last_config_id and self.select_config_by_id(last_config_id)\<close>: the agent
  with the remembered configuration selected, when the id is given, is not empty and
  resolves.
\<close>

definition use_last_config :: "GitLabAgent \<Rightarrow> string option \<Rightarrow> GitLabAgent option" where
  "use_last_config agent last_config_id =
     (case last_config_id of
        None \<Rightarrow> None
      | Some config_id \<Rightarrow>
          if config_id = [] then None
          else (case select_config_by_id agent config_id of
                  (True, agent') \<Rightarrow> Some agent'
                | (False, _) \<Rightarrow> None))"

text \<open>
  The first part of \<open>handle_query\<close>: the configuration is resolved, or the prompt is
  returned (\<open>Inl\<close>).
\<close>

definition resolve_config :: "GitLabAgent \<Rightarrow> string option \<Rightarrow> string + GitLabAgent" where
  "resolve_config agent last_config_id =
     (if selected_config agent \<noteq> None then Inr agent
      else
        case use_last_config agent last_config_id of
          Some agent' \<Rightarrow> Inr agent'
        | None \<Rightarrow>
            let active_configs = filter is_active (gitlab_configs agent) in
            if length active_configs = 1 then
              Inr (agent\<lparr>selected_config := Some (hd active_configs)\<rparr>)
            else
              Inl (''Please select a GitLab configuration first:'' @ nl @ nl
                   @ list_gitlab_configs agent @ nl @ nl
                   @ ''Then use `/show-mr` or `/review-mr` to get started.''))"

text \<open>
  The test \<open>any(keyword in query_lower for keyword in [...])\<close> for a request to list
  merge requests.
\<close>

definition list_keywords :: "string list" where
  "list_keywords = [''list'', ''show'', ''merge request'', ''mr'', ''pull request'']"

definition has_list_keyword :: "nat list \<Rightarrow> bool" where
  "has_list_keyword query_lower =
     list_ex (\<lambda>keyword. contains (decode keyword) query_lower) list_keywords"

text \<open>
  \<open>handle_query\<close> returns its answer (\<open>None\<close> is the Python \<open>None\<close>), the agent and the
  global configuration afterwards. \<open>int\<close> refuses a text of more than 4300 digits.
\<close>

definition handle_query ::
  "unicode_db \<Rightarrow> tools \<Rightarrow> GitLabAgent \<Rightarrow> GitLabConfig option \<Rightarrow> string \<Rightarrow> string option
     \<Rightarrow> (exn + string option) \<times> GitLabAgent \<times> GitLabConfig option" where
  "handle_query ud t agent current query last_config_id =
     (case resolve_config agent last_config_id of
        Inl prompt \<Rightarrow> (Inr (Some prompt), agent, current)
      | Inr agent \<Rightarrow>
          let current = selected_config agent;
              query_lower = lower ud (decode query)
          in (case re_search ud query_lower of
                Some ds \<Rightarrow>
                  if length ds > 4300 then (Inl (OtherException ''ValueError''), agent, current)
                  else (Inr (Some (get_merge_request_details_tool t current
                                     (int_of_digits ud ds))),
                        agent, current)
              | None \<Rightarrow>
                  if has_list_keyword query_lower then
                    let state = (if contains (decode ''closed'') query_lower then ''closed''
                                 else if contains (decode ''merged'') query_lower then ''merged''
                                 else if contains (decode ''all'') query_lower then ''all''
                                 else ''opened'')
                    in (Inr (Some (list_merge_requests_tool t current state)), agent, current)
                  else (Inr None, agent, current)))"

section \<open>Merge-request listing (gitlab\_tools.py)\<close>

text \<open>
  One element of the list that \<open>response.json()\<close> returns, with the fields the code
  reads, typed as the GitLab API sends them. \<open>upvotes\<close> and \<open>downvotes\<close> are 0 and
  \<open>labels\<close> is empty when the key is missing.
\<close>

record MergeRequest =
  iid :: nat
  title :: string
  author_name :: string
  author_username :: string
  mr_state :: string
  upvotes :: int
  downvotes :: int
  source_branch :: string
  target_branch :: string
  labels :: "string list"
  mr_created_at :: string
  mr_updated_at :: string
  web_url :: string

text \<open>
  What the request and \<open>raise_for_status\<close> give: the decoded list, an
  \<open>HTTPStatusError\<close> with the status code and the body text, or any other exception
  with its message.
\<close>

datatype fetched =
    Fetched "MergeRequest list"
  | HTTPStatusError nat string
  | Failed string

text \<open>
  What the tool finds outside the program: \<open>decrypt_token\<close> returns the token or raises
  (\<open>Inl\<close>, with the message of the exception), and the server answers the request for
  a URL, a token and a state.
\<close>

record tool_world =
  decrypt_token :: "string \<Rightarrow> string + string"
  get_merge_requests :: "string \<Rightarrow> string \<Rightarrow> string \<Rightarrow> fetched"

definition str_int :: "int \<Rightarrow> string" where
  "str_int i = (if i < 0 then ''-'' @ str_nat (nat (- i)) else str_nat (nat i))"

text \<open>\<open>s.split('T')[0]\<close>.\<close>

definition date_part :: "string \<Rightarrow> string" where
  "date_part s = takeWhile (\<lambda>c. c \<noteq> CHR ''T'') s"

text \<open>The body of the loop: the entry for one merge request.\<close>

definition format_mr :: "MergeRequest \<Rightarrow> string" where
  "format_mr mr =
     (let labels_text = (if labels mr \<noteq> []
                         then join '', '' (map (\<lambda>label. ''`'' @ label @ ''`'') (labels mr))
                         else ''None'');
          approvals = (if upvotes mr > 0 then thumbs_up @ '' '' @ str_int (upvotes mr) else []);
          approvals = (if downvotes mr > 0
                       then approvals @ '' '' @ thumbs_down @ '' '' @ str_int (downvotes mr)
                       else approvals);
          created = date_part (mr_created_at mr);
          updated = date_part (mr_updated_at mr)
      in ''### MR !'' @ str_nat (iid mr) @ '': '' @ title mr @ nl @ nl
         @ ''- **Author:** '' @ author_name mr @ '' (@'' @ author_username mr @ '')'' @ nl
         @ ''- **Status:** `'' @ mr_state mr @ ''` '' @ approvals @ nl
         @ ''- **Branch:** `'' @ source_branch mr @ ''` '' @ right_arrow
             @ '' `'' @ target_branch mr @ ''`'' @ nl
         @ ''- **Labels:** '' @ labels_text @ nl
         @ ''- **Created:** '' @ created @ '' | **Updated:** '' @ updated @ nl
         @ ''- **URL:** '' @ web_url mr)"

text \<open>
  The loop \<open>for mr in merge_requests[:10]: mr_list.append(...)\<close>, with \<open>mr_list\<close> as
  the accumulator.
\<close>

fun format_loop :: "MergeRequest list \<Rightarrow> string list \<Rightarrow> string list" where
  "format_loop [] mr_list = mr_list"
| "format_loop (mr # mrs) mr_list = format_loop mrs (mr_list @ [format_mr mr])"

definition mr_entries :: "MergeRequest list \<Rightarrow> string list" where
  "mr_entries merge_requests = format_loop (take 10 merge_requests) []"

text \<open>The text returned for a list that is not empty.\<close>

definition render_list :: "string \<Rightarrow> string \<Rightarrow> MergeRequest list \<Rightarrow> string" where
  "render_list pid state merge_requests =
     (let result = ''# '' @ clipboard @ '' Merge Requests in Project '' @ pid @ nl @ nl;
          result = result @ ''**Filter:** '' @ state @ '' | **Total:** ''
                     @ str_nat (length merge_requests) @ nl @ nl;
          result = result @ ''---'' @ nl @ nl;
          result = result @ join (nl @ nl) (mr_entries merge_requests)
      in if length merge_requests > 10 then
           result @ nl @ nl @ ''---'' @ nl @ nl @ ''*... and ''
             @ str_nat (length merge_requests - 10) @ '' more merge requests*''
         else result)"

definition list_merge_requests :: "tool_world \<Rightarrow> GitLabConfig option \<Rightarrow> string \<Rightarrow> string" where
  "list_merge_requests tw current state =
     (case current of
        None \<Rightarrow> cross_mark @ '' No GitLab configuration selected''
      | Some config \<Rightarrow>
          if or_else (project_id config) [] = [] then
            cross_mark
              @ '' No project ID configured. Please set a project ID in your GitLab configuration.''
          else
            let pid = or_else (project_id config) [] in
            (case decrypt_token tw (access_token_encrypted config) of
               Inl msg \<Rightarrow> cross_mark @ '' Error fetching merge requests: '' @ msg
             | Inr token \<Rightarrow>
                 let url = gitlab_url config @ ''/api/v4/projects/'' @ pid @ ''/merge_requests''
                 in (case get_merge_requests tw url token state of
                       HTTPStatusError code body \<Rightarrow>
                         cross_mark @ '' GitLab API Error: '' @ str_nat code @ '' - '' @ body
                     | Failed msg \<Rightarrow> cross_mark @ '' Error fetching merge requests: '' @ msg
                     | Fetched merge_requests \<Rightarrow>
                         if merge_requests = [] then
                           ''No '' @ state @ '' merge requests found in project '' @ pid @ ''.''
                         else render_list pid state merge_requests)))"

section \<open>Example inputs\<close>

text \<open>
  A URL check, a server and a cipher to evaluate the functions on. The server answers
  by the token it is sent.
\<close>

definition ex_url_ok :: "string \<Rightarrow> bool" where
  "ex_url_ok u = prefix ''https://'' u"

definition ex_server :: "string \<Rightarrow> string \<Rightarrow> http_outcome" where
  "ex_server url token =
     (if token = ''anon'' then Response 200 (Some (JObj [(''id'', JNum 7)]))
      else if token = ''html'' then Response 200 None
      else if token = ''expired'' then Response 401 None
      else if token = ''scoped'' then Response 403 None
      else if token = ''lost'' then Response 404 None
      else if token = ''slow'' then Raises TimeoutException
      else if token = ''down'' then Raises NetworkError
      else if token = ''odd'' then Raises (OtherException ''TooManyRedirects'')
      else if token = ''cancelled'' then Raises CancelledError
      else if token = ''noclient'' then Unopened (OtherException ''FileNotFoundError'')
      else if token = ''broken'' then Response 502 None
      else Response 200 (Some (JObj [(''id'', JNum 7), (''username'', JStr ''alice'')])))"

definition ex_encrypt :: "string \<Rightarrow> string" where
  "ex_encrypt token = ''enc('' @ token @ '')''"

definition ex_world :: world where
  "ex_world =
     \<lparr>http_url_ok = ex_url_ok, http_get = ex_server, encrypt_token = ex_encrypt,
      new_uuid = ''c9'', now = 100\<rparr>"

definition ex_row :: GitLabConfig where
  "ex_row =
     \<lparr>id' = ''c1'', user_id = ''u1'', config_name = Some ''Work'',
      gitlab_url = ''https://gitlab.example'', access_token_encrypted = ''enc(old)'',
      project_id = Some ''42'', is_active = False, created_at = 1, updated_at = 1\<rparr>"

text \<open>
  A Unicode database that knows, outside ASCII, the fullwidth digits (U+FF10 to U+FF19)
  and no letter with a lower-case form.
\<close>

definition ex_decimal :: "nat \<Rightarrow> nat option" where
  "ex_decimal c = (if 0xFF10 \<le> c \<and> c \<le> 0xFF19 then Some (c - 0xFF10) else None)"

definition ex_lower :: "nat list \<Rightarrow> nat list" where
  "ex_lower s = map ascii_lower s"

definition ex_unicode :: unicode_db where
  "ex_unicode = \<lparr>non_ascii_decimal = ex_decimal, non_ascii_lower = ex_lower\<rparr>"

text \<open>Two more rows of the same user, both active, and an agent over a list of rows.\<close>

definition ex_home :: GitLabConfig where
  "ex_home =
     \<lparr>id' = ''c2'', user_id = ''u1'', config_name = None,
      gitlab_url = ''https://git.home.example'', access_token_encrypted = ''enc(home)'',
      project_id = Some ''7'', is_active = True, created_at = 2, updated_at = 2\<rparr>"

definition ex_lab :: GitLabConfig where
  "ex_lab =
     \<lparr>id' = ''c3'', user_id = ''u1'', config_name = Some ''Lab'',
      gitlab_url = ''https://lab.example'', access_token_encrypted = ''enc(lab)'',
      project_id = Some ''8'', is_active = True, created_at = 3, updated_at = 3\<rparr>"

definition ex_agent :: "GitLabConfig list \<Rightarrow> GitLabAgent" where
  "ex_agent configs = \<lparr>agent_user_id = ''u1'', gitlab_configs = configs, selected_config = None\<rparr>"

definition ex_list_tool :: "GitLabConfig option \<Rightarrow> string \<Rightarrow> string" where
  "ex_list_tool current state = ''list of '' @ state"

definition ex_details_tool :: "GitLabConfig option \<Rightarrow> nat \<Rightarrow> string" where
  "ex_details_tool current mr_number = ''details of '' @ str_nat mr_number"

definition ex_tools :: tools where
  "ex_tools =
     \<lparr>list_merge_requests_tool = ex_list_tool,
      get_merge_request_details_tool = ex_details_tool\<rparr>"

text \<open>A server that returns twelve merge requests, and a cipher that decrypts.\<close>

definition ex_mr :: "nat \<Rightarrow> MergeRequest" where
  "ex_mr n =
     \<lparr>iid = n, title = ''Fix'', author_name = ''Ann'', author_username = ''ann'',
      mr_state = ''opened'', upvotes = 1, downvotes = 0, source_branch = ''fix'',
      target_branch = ''main'', labels = [''bug''],
      mr_created_at = ''2024-01-02T03:04:05Z'', mr_updated_at = ''2024-01-03T03:04:05Z'',
      web_url = ''https://lab.example/mr''\<rparr>"

definition ex_decrypt :: "string \<Rightarrow> string + string" where
  "ex_decrypt encrypted_token = Inr ''token''"

definition ex_fetch :: "string \<Rightarrow> string \<Rightarrow> string \<Rightarrow> fetched" where
  "ex_fetch url token state = Fetched (map ex_mr [1..<13])"

definition ex_tool_world :: tool_world where
  "ex_tool_world = \<lparr>decrypt_token = ex_decrypt, get_merge_requests = ex_fetch\<rparr>"

section \<open>Properties of the credential validation\<close>

lemma response_ok_raises:
  "response_ok body = Inl e \<Longrightarrow> e = JSONDecodeError \<or> e = AttributeError \<or> e = ValidationError"
  by (auto simp: response_ok_def split: option.splits json.splits)

lemma response_ok_valid: "response_ok body = Inr r \<Longrightarrow> is_valid r"
  by (auto simp: response_ok_def split: option.splits json.splits)

lemma check_response_cases:
  "check_response (Raises e) = Inl e"
  "check_response (Unopened e) = Inl e"
  "check_response (Response 200 body) = response_ok body"
  "check_response (Response 401 body)
     = Inr (failure ''Invalid access token or token expired'' ''invalid_token'')"
  "check_response (Response 403 body)
     = Inr (failure ''Token lacks required permissions'' ''insufficient_permissions'')"
  "check_response (Response 404 body)
     = Inr (failure ''GitLab API endpoint not found - check URL'' ''not_found'')"
  "code \<noteq> 200 \<Longrightarrow> code \<noteq> 401 \<Longrightarrow> code \<noteq> 403 \<Longrightarrow> code \<noteq> 404 \<Longrightarrow>
     check_response (Response code body)
       = Inr (failure (''GitLab API error: '' @ str_nat code) ''api_error'')"
  by (simp_all add: check_response_def)

lemma check_response_invalid:
  "check_response out = Inr r \<Longrightarrow> \<not> is_valid r \<Longrightarrow> error_code r \<noteq> None"
  by (auto simp: check_response_def failure_def dest: response_ok_valid
           split: http_outcome.splits if_splits)

lemma check_response_returns:
  "code \<noteq> 200 \<Longrightarrow> \<exists>r. check_response (Response code body) = Inr r"
  by (simp add: check_response_def)

lemma handlers_cases:
  "handlers TimeoutException
     = Inr (failure ''Connection timeout - GitLab instance unreachable'' ''timeout'')"
  "handlers NetworkError
     = Inr (failure ''Network error - could not reach GitLab instance'' ''network_error'')"
  "is_exception e \<Longrightarrow> e \<noteq> TimeoutException \<Longrightarrow> e \<noteq> NetworkError \<Longrightarrow>
     handlers e = Inr (failure ''Unexpected error during validation'' ''unknown_error'')"
  "\<not> is_exception e \<Longrightarrow> handlers e = Inl e"
  by (auto simp: handlers_def is_exception_def)

lemma handlers_returns: "is_exception e \<Longrightarrow> \<exists>r. handlers e = Inr r"
  by (simp add: handlers_def)

lemma handlers_invalid: "handlers e = Inr r \<Longrightarrow> \<not> is_valid r \<and> error_code r \<noteq> None"
  by (auto simp: handlers_def failure_def split: if_splits)

lemma validate_invalid_url:
  "\<not> ok (rstrip_slash url) \<Longrightarrow>
     validate_gitlab_credentials ok get url tok
       = Inr (failure ''Invalid GitLab URL format'' ''invalid_url'')"
  by (simp add: validate_gitlab_credentials_def)

lemma validate_response:
  "ok (rstrip_slash url) \<Longrightarrow>
   get (rstrip_slash url @ ''/api/v4/user'') tok = Response code body \<Longrightarrow>
     validate_gitlab_credentials ok get url tok
       = (case check_response (Response code body) of Inr r \<Rightarrow> Inr r | Inl e \<Rightarrow> handlers e)"
  by (simp add: validate_gitlab_credentials_def)

lemma validate_raises:
  "ok (rstrip_slash url) \<Longrightarrow>
   get (rstrip_slash url @ ''/api/v4/user'') tok = Raises e \<Longrightarrow>
     validate_gitlab_credentials ok get url tok = handlers e"
  by (simp add: validate_gitlab_credentials_def check_response_def)

lemma validate_unopened:
  "ok (rstrip_slash url) \<Longrightarrow>
   get (rstrip_slash url @ ''/api/v4/user'') tok = Unopened e \<Longrightarrow>
     validate_gitlab_credentials ok get url tok = Inl e"
  by (simp add: validate_gitlab_credentials_def)

lemma response_ok_handled:
  "response_ok body = Inl e \<Longrightarrow>
     handlers e = Inr (failure ''Unexpected error during validation'' ''unknown_error'')"
  by (auto dest!: response_ok_raises simp: handlers_def is_exception_def)

lemma validate_invalid_has_code:
  assumes "validate_gitlab_credentials ok get url tok = Inr r" and "\<not> is_valid r"
  shows "error_code r \<noteq> None"
proof (cases "ok (rstrip_slash url)")
  case False
  with assms show ?thesis
    by (auto simp: validate_gitlab_credentials_def failure_def)
next
  case True
  show ?thesis
  proof (cases "get (rstrip_slash url @ ''/api/v4/user'') tok")
    case (Response code body)
    show ?thesis
    proof (cases "check_response (Response code body)")
      case (Inl e)
      with True Response assms(1) have "handlers e = Inr r"
        by (simp add: validate_response)
      then show ?thesis by (simp add: handlers_invalid)
    next
      case (Inr r')
      with True Response assms(1) have "r' = r"
        by (simp add: validate_response)
      with Inr assms(2) show ?thesis
        by (auto dest: check_response_invalid)
    qed
  next
    case (Raises e)
    with True assms(1) have "handlers e = Inr r"
      by (simp add: validate_raises)
    then show ?thesis by (simp add: handlers_invalid)
  next
    case (Unopened e)
    with True assms(1) show ?thesis
      by (simp add: validate_unopened)
  qed
qed

lemma ex_api_url: "rstrip_slash ''https://gitlab.example/'' = ''https://gitlab.example''"
  by (simp add: rstrip_slash_def)

lemma str_nat_502: "str_nat 502 = ''502''"
  by (simp add: str_nat.simps digit_char_def)

text \<open>
  Claim C2, as the code has it. With \<open>u\<close> the URL without its trailing slashes and the
  request sent to \<open>u/api/v4/user\<close>: a URL that fails the check gives \<open>invalid_url\<close>
  whatever the server would answer; status 200 with a JSON object gives a valid result
  with the username of the object, or \<open>unknown\<close> when the object has none; status 200
  with a body that is not JSON gives \<open>unknown_error\<close>; 401, 403 and 404 give
  \<open>invalid_token\<close>, \<open>insufficient_permissions\<close> and \<open>not_found\<close>; a timeout gives
  \<open>timeout\<close> and a network error \<open>network_error\<close>; every other status code gives
  \<open>api_error\<close> with the code in the message.
\<close>

theorem validate_status_mapping:
  "(\<not> ok (rstrip_slash url) \<longrightarrow>
      validate_gitlab_credentials ok get url tok
        = Inr (failure ''Invalid GitLab URL format'' ''invalid_url''))
   \<and> (ok (rstrip_slash url) \<longrightarrow>
        (get (rstrip_slash url @ ''/api/v4/user'') tok = Response 200 (Some (JObj kvs))
           \<and> dict_get kvs ''username'' = Some (JStr name) \<longrightarrow>
         validate_gitlab_credentials ok get url tok
           = Inr \<lparr>is_valid = True, error_message = None, error_code = None,
                  gitlab_username = Some name\<rparr>)
      \<and> (get (rstrip_slash url @ ''/api/v4/user'') tok = Response 200 (Some (JObj kvs))
           \<and> dict_get kvs ''username'' = None \<longrightarrow>
         validate_gitlab_credentials ok get url tok
           = Inr \<lparr>is_valid = True, error_message = None, error_code = None,
                  gitlab_username = Some ''unknown''\<rparr>)
      \<and> (get (rstrip_slash url @ ''/api/v4/user'') tok = Response 200 None \<longrightarrow>
         validate_gitlab_credentials ok get url tok
           = Inr (failure ''Unexpected error during validation'' ''unknown_error''))
      \<and> (get (rstrip_slash url @ ''/api/v4/user'') tok = Response 401 body \<longrightarrow>
         validate_gitlab_credentials ok get url tok
           = Inr (failure ''Invalid access token or token expired'' ''invalid_token''))
      \<and> (get (rstrip_slash url @ ''/api/v4/user'') tok = Response 403 body \<longrightarrow>
         validate_gitlab_credentials ok get url tok
           = Inr (failure ''Token lacks required permissions'' ''insufficient_permissions''))
      \<and> (get (rstrip_slash url @ ''/api/v4/user'') tok = Response 404 body \<longrightarrow>
         validate_gitlab_credentials ok get url tok
           = Inr (failure ''GitLab API endpoint not found - check URL'' ''not_found''))
      \<and> (get (rstrip_slash url @ ''/api/v4/user'') tok = Raises TimeoutException \<longrightarrow>
         validate_gitlab_credentials ok get url tok
           = Inr (failure ''Connection timeout - GitLab instance unreachable'' ''timeout''))
      \<and> (get (rstrip_slash url @ ''/api/v4/user'') tok = Raises NetworkError \<longrightarrow>
         validate_gitlab_credentials ok get url tok
           = Inr (failure ''Network error - could not reach GitLab instance'' ''network_error''))
      \<and> (get (rstrip_slash url @ ''/api/v4/user'') tok = Response code body
           \<and> code \<noteq> 200 \<and> code \<noteq> 401 \<and> code \<noteq> 403 \<and> code \<noteq> 404 \<longrightarrow>
         validate_gitlab_credentials ok get url tok
           = Inr (failure (''GitLab API error: '' @ str_nat code) ''api_error'')))"
proof (intro conjI impI)
  assume "\<not> ok (rstrip_slash url)"
  then show "validate_gitlab_credentials ok get url tok
        = Inr (failure ''Invalid GitLab URL format'' ''invalid_url'')"
    by (rule validate_invalid_url)
qed (auto simp: validate_response validate_raises check_response_cases response_ok_def
      handlers_def is_exception_def)

theorem validate_status_mapping_witness:
  "validate_gitlab_credentials ex_url_ok ex_server ''gitlab.example'' ''good''
     = Inr (failure ''Invalid GitLab URL format'' ''invalid_url'')
   \<and> validate_gitlab_credentials ex_url_ok ex_server ''https://gitlab.example/'' ''good''
     = Inr \<lparr>is_valid = True, error_message = None, error_code = None,
            gitlab_username = Some ''alice''\<rparr>
   \<and> validate_gitlab_credentials ex_url_ok ex_server ''https://gitlab.example/'' ''anon''
     = Inr \<lparr>is_valid = True, error_message = None, error_code = None,
            gitlab_username = Some ''unknown''\<rparr>
   \<and> validate_gitlab_credentials ex_url_ok ex_server ''https://gitlab.example/'' ''expired''
     = Inr (failure ''Invalid access token or token expired'' ''invalid_token'')
   \<and> validate_gitlab_credentials ex_url_ok ex_server ''https://gitlab.example/'' ''scoped''
     = Inr (failure ''Token lacks required permissions'' ''insufficient_permissions'')
   \<and> validate_gitlab_credentials ex_url_ok ex_server ''https://gitlab.example/'' ''lost''
     = Inr (failure ''GitLab API endpoint not found - check URL'' ''not_found'')
   \<and> validate_gitlab_credentials ex_url_ok ex_server ''https://gitlab.example/'' ''slow''
     = Inr (failure ''Connection timeout - GitLab instance unreachable'' ''timeout'')
   \<and> validate_gitlab_credentials ex_url_ok ex_server ''https://gitlab.example/'' ''down''
     = Inr (failure ''Network error - could not reach GitLab instance'' ''network_error'')
   \<and> validate_gitlab_credentials ex_url_ok ex_server ''https://gitlab.example/'' ''broken''
     = Inr (failure ''GitLab API error: 502'' ''api_error'')"
proof (intro conjI)
  show "validate_gitlab_credentials ex_url_ok ex_server ''gitlab.example'' ''good''
     = Inr (failure ''Invalid GitLab URL format'' ''invalid_url'')"
    using validate_status_mapping [of ex_url_ok "''gitlab.example''" ex_server "''good''"]
    by (simp add: rstrip_slash_def ex_url_ok_def)
  show "validate_gitlab_credentials ex_url_ok ex_server ''https://gitlab.example/'' ''good''
     = Inr \<lparr>is_valid = True, error_message = None, error_code = None,
            gitlab_username = Some ''alice''\<rparr>"
    using validate_status_mapping [of ex_url_ok "''https://gitlab.example/''" ex_server
        "''good''" "[(''id'', JNum 7), (''username'', JStr ''alice'')]" "''alice''"]
    by (simp add: ex_api_url ex_url_ok_def ex_server_def dict_get_def)
  show "validate_gitlab_credentials ex_url_ok ex_server ''https://gitlab.example/'' ''anon''
     = Inr \<lparr>is_valid = True, error_message = None, error_code = None,
            gitlab_username = Some ''unknown''\<rparr>"
    using validate_status_mapping [of ex_url_ok "''https://gitlab.example/''" ex_server
        "''anon''" "[(''id'', JNum 7)]"]
    by (simp add: ex_api_url ex_url_ok_def ex_server_def dict_get_def)
  show "validate_gitlab_credentials ex_url_ok ex_server ''https://gitlab.example/'' ''expired''
     = Inr (failure ''Invalid access token or token expired'' ''invalid_token'')"
    using validate_status_mapping [of ex_url_ok "''https://gitlab.example/''" ex_server
        "''expired''" _ _ None]
    by (simp add: ex_api_url ex_url_ok_def ex_server_def)
  show "validate_gitlab_credentials ex_url_ok ex_server ''https://gitlab.example/'' ''scoped''
     = Inr (failure ''Token lacks required permissions'' ''insufficient_permissions'')"
    using validate_status_mapping [of ex_url_ok "''https://gitlab.example/''" ex_server
        "''scoped''" _ _ None]
    by (simp add: ex_api_url ex_url_ok_def ex_server_def)
  show "validate_gitlab_credentials ex_url_ok ex_server ''https://gitlab.example/'' ''lost''
     = Inr (failure ''GitLab API endpoint not found - check URL'' ''not_found'')"
    using validate_status_mapping [of ex_url_ok "''https://gitlab.example/''" ex_server
        "''lost''" _ _ None]
    by (simp add: ex_api_url ex_url_ok_def ex_server_def)
  show "validate_gitlab_credentials ex_url_ok ex_server ''https://gitlab.example/'' ''slow''
     = Inr (failure ''Connection timeout - GitLab instance unreachable'' ''timeout'')"
    using validate_status_mapping [of ex_url_ok "''https://gitlab.example/''" ex_server
        "''slow''"]
    by (simp add: ex_api_url ex_url_ok_def ex_server_def)
  show "validate_gitlab_credentials ex_url_ok ex_server ''https://gitlab.example/'' ''down''
     = Inr (failure ''Network error - could not reach GitLab instance'' ''network_error'')"
    using validate_status_mapping [of ex_url_ok "''https://gitlab.example/''" ex_server
        "''down''"]
    by (simp add: ex_api_url ex_url_ok_def ex_server_def)
  show "validate_gitlab_credentials ex_url_ok ex_server ''https://gitlab.example/'' ''broken''
     = Inr (failure ''GitLab API error: 502'' ''api_error'')"
    using validate_status_mapping [of ex_url_ok "''https://gitlab.example/''" ex_server
        "''broken''" _ _ None 502]
    by (simp add: ex_api_url ex_url_ok_def ex_server_def str_nat_502)
qed

text \<open>
  Claim C2 as stated fails: the server answers the request with status 200 and a body
  that is not JSON, and the result is not valid; its error code is \<open>unknown_error\<close>.
\<close>

theorem validate_status_200_counterexample:
  "ex_url_ok (rstrip_slash ''https://gitlab.example/'')
   \<and> ex_server (rstrip_slash ''https://gitlab.example/'' @ ''/api/v4/user'') ''html''
       = Response 200 None
   \<and> validate_gitlab_credentials ex_url_ok ex_server ''https://gitlab.example/'' ''html''
       = Inr \<lparr>is_valid = False,
              error_message = Some ''Unexpected error during validation'',
              error_code = Some ''unknown_error'', gitlab_username = None\<rparr>"
  by (simp add: ex_api_url ex_url_ok_def ex_server_def validate_gitlab_credentials_def
        check_response_def response_ok_def failure_def handlers_def is_exception_def)

text \<open>
  Claim C3, as the code has it. \<open>validate_gitlab_credentials\<close> returns a result, and does
  not raise, when the URL fails the check, when the request gets a response, and when
  the request raises an exception that derives from \<open>Exception\<close>; such an exception other
  than a timeout and a network error, and an exception raised while the body of a
  status-200 response is decoded, give the error code \<open>unknown_error\<close>. An exception of
  the request that does not derive from \<open>Exception\<close> (a cancellation), and an exception
  raised while the client is built, before the \<open>try\<close> block, reach the caller.
\<close>

theorem validate_fault_handling:
  "(\<not> ok (rstrip_slash url)
      \<or> get (rstrip_slash url @ ''/api/v4/user'') tok = Response code body
      \<or> (get (rstrip_slash url @ ''/api/v4/user'') tok = Raises e \<and> is_exception e) \<longrightarrow>
      (\<exists>r. validate_gitlab_credentials ok get url tok = Inr r))
   \<and> (ok (rstrip_slash url)
        \<and> get (rstrip_slash url @ ''/api/v4/user'') tok = Raises e
        \<and> is_exception e \<and> e \<noteq> TimeoutException \<and> e \<noteq> NetworkError \<longrightarrow>
      validate_gitlab_credentials ok get url tok
        = Inr (failure ''Unexpected error during validation'' ''unknown_error''))
   \<and> (ok (rstrip_slash url)
        \<and> get (rstrip_slash url @ ''/api/v4/user'') tok = Response 200 body
        \<and> response_ok body = Inl e \<longrightarrow>
      validate_gitlab_credentials ok get url tok
        = Inr (failure ''Unexpected error during validation'' ''unknown_error''))
   \<and> (ok (rstrip_slash url)
        \<and> get (rstrip_slash url @ ''/api/v4/user'') tok = Raises e
        \<and> \<not> is_exception e \<longrightarrow>
      validate_gitlab_credentials ok get url tok = Inl e)
   \<and> (ok (rstrip_slash url)
        \<and> get (rstrip_slash url @ ''/api/v4/user'') tok = Unopened e \<longrightarrow>
      validate_gitlab_credentials ok get url tok = Inl e)"
proof (intro conjI impI)
  assume a: "\<not> ok (rstrip_slash url)
      \<or> get (rstrip_slash url @ ''/api/v4/user'') tok = Response code body
      \<or> (get (rstrip_slash url @ ''/api/v4/user'') tok = Raises e \<and> is_exception e)"
  show "\<exists>r. validate_gitlab_credentials ok get url tok = Inr r"
  proof (cases "ok (rstrip_slash url)")
    case False
    then show ?thesis by (simp add: validate_invalid_url)
  next
    case True
    with a consider "get (rstrip_slash url @ ''/api/v4/user'') tok = Response code body"
      | "get (rstrip_slash url @ ''/api/v4/user'') tok = Raises e" "is_exception e"
      by blast
    then show ?thesis
    proof cases
      case 1
      show ?thesis
      proof (cases "check_response (Response code body)")
        case (Inl e')
        then have c: "code = 200"
          using check_response_returns [of code body] by auto
        with Inl have "response_ok body = Inl e'"
          by (simp add: check_response_cases)
        then have "handlers e' = Inr (failure ''Unexpected error during validation'' ''unknown_error'')"
          by (rule response_ok_handled)
        with True 1 Inl show ?thesis
          by (simp add: validate_response)
      next
        case (Inr r)
        with True 1 show ?thesis by (simp add: validate_response)
      qed
    next
      case 2
      with True show ?thesis by (simp add: validate_raises handlers_returns)
    qed
  qed
next
  assume "ok (rstrip_slash url)
        \<and> get (rstrip_slash url @ ''/api/v4/user'') tok = Raises e
        \<and> is_exception e \<and> e \<noteq> TimeoutException \<and> e \<noteq> NetworkError"
  then show "validate_gitlab_credentials ok get url tok
        = Inr (failure ''Unexpected error during validation'' ''unknown_error'')"
    by (simp add: validate_raises handlers_cases)
next
  assume a: "ok (rstrip_slash url)
        \<and> get (rstrip_slash url @ ''/api/v4/user'') tok = Response 200 body
        \<and> response_ok body = Inl e"
  then have "handlers e = Inr (failure ''Unexpected error during validation'' ''unknown_error'')"
    by (blast intro: response_ok_handled)
  with a show "validate_gitlab_credentials ok get url tok
        = Inr (failure ''Unexpected error during validation'' ''unknown_error'')"
    by (simp add: validate_response check_response_cases)
next
  assume "ok (rstrip_slash url)
        \<and> get (rstrip_slash url @ ''/api/v4/user'') tok = Raises e
        \<and> \<not> is_exception e"
  then show "validate_gitlab_credentials ok get url tok = Inl e"
    by (simp add: validate_raises handlers_cases)
next
  assume "ok (rstrip_slash url)
        \<and> get (rstrip_slash url @ ''/api/v4/user'') tok = Unopened e"
  then show "validate_gitlab_credentials ok get url tok = Inl e"
    by (simp add: validate_unopened)
qed

theorem validate_fault_handling_witness:
  "(\<exists>r. validate_gitlab_credentials ex_url_ok ex_server ''https://gitlab.example/'' ''odd''
          = Inr r)
   \<and> validate_gitlab_credentials ex_url_ok ex_server ''https://gitlab.example/'' ''odd''
       = Inr (failure ''Unexpected error during validation'' ''unknown_error'')
   \<and> validate_gitlab_credentials ex_url_ok ex_server ''https://gitlab.example/'' ''html''
       = Inr (failure ''Unexpected error during validation'' ''unknown_error'')
   \<and> validate_gitlab_credentials ex_url_ok ex_server ''https://gitlab.example/'' ''cancelled''
       = Inl CancelledError
   \<and> validate_gitlab_credentials ex_url_ok ex_server ''https://gitlab.example/'' ''noclient''
       = Inl (OtherException ''FileNotFoundError'')"
proof (intro conjI)
  show "\<exists>r. validate_gitlab_credentials ex_url_ok ex_server ''https://gitlab.example/'' ''odd''
          = Inr r"
    using validate_fault_handling [of ex_url_ok "''https://gitlab.example/''" ex_server
        "''odd''" _ _ "OtherException ''TooManyRedirects''"]
    by (simp add: ex_api_url ex_url_ok_def ex_server_def is_exception_def)
  show "validate_gitlab_credentials ex_url_ok ex_server ''https://gitlab.example/'' ''odd''
       = Inr (failure ''Unexpected error during validation'' ''unknown_error'')"
    using validate_fault_handling [of ex_url_ok "''https://gitlab.example/''" ex_server
        "''odd''" _ _ "OtherException ''TooManyRedirects''"]
    by (simp add: ex_api_url ex_url_ok_def ex_server_def is_exception_def)
  show "validate_gitlab_credentials ex_url_ok ex_server ''https://gitlab.example/'' ''html''
       = Inr (failure ''Unexpected error during validation'' ''unknown_error'')"
    using validate_fault_handling [of ex_url_ok "''https://gitlab.example/''" ex_server
        "''html''" _ None JSONDecodeError]
    by (simp add: ex_api_url ex_url_ok_def ex_server_def response_ok_def)
  show "validate_gitlab_credentials ex_url_ok ex_server ''https://gitlab.example/'' ''cancelled''
       = Inl CancelledError"
    using validate_fault_handling [of ex_url_ok "''https://gitlab.example/''" ex_server
        "''cancelled''" _ _ CancelledError]
    by (simp add: ex_api_url ex_url_ok_def ex_server_def is_exception_def)
  show "validate_gitlab_credentials ex_url_ok ex_server ''https://gitlab.example/'' ''noclient''
       = Inl (OtherException ''FileNotFoundError'')"
    using validate_fault_handling [of ex_url_ok "''https://gitlab.example/''" ex_server
        "''noclient''" _ _ "OtherException ''FileNotFoundError''"]
    by (simp add: ex_api_url ex_url_ok_def ex_server_def)
qed

text \<open>
  Claim C3 as stated fails: the call is cancelled while it waits for the response, the
  request raises \<open>asyncio.CancelledError\<close>, which no handler catches, and the function
  raises it to its caller instead of returning a result.
\<close>

theorem validate_cancelled_counterexample:
  "ex_url_ok (rstrip_slash ''https://gitlab.example/'')
   \<and> ex_server (rstrip_slash ''https://gitlab.example/'' @ ''/api/v4/user'') ''cancelled''
       = Raises CancelledError
   \<and> validate_gitlab_credentials ex_url_ok ex_server ''https://gitlab.example/'' ''cancelled''
       = Inl CancelledError"
  by (simp add: ex_api_url ex_url_ok_def ex_server_def validate_gitlab_credentials_def
        check_response_def handlers_def is_exception_def)

section \<open>Properties of the credential store\<close>

lemma query_config_None:
  "(\<forall>c\<in>set db. id' c = config_id \<longrightarrow> user_id c \<noteq> uid)
     \<Longrightarrow> query_config db config_id uid = None"
  by (auto simp: query_config_def find_None_iff)

lemma query_config_found:
  "query_config db config_id uid = Some config
     \<Longrightarrow> id' config = config_id \<and> user_id config = uid"
  by (auto simp: query_config_def find_Some_iff)

lemma query_config_store_row:
  "query_config db config_id uid = Some config \<Longrightarrow> id' c = config_id \<Longrightarrow> user_id c = uid
     \<Longrightarrow> query_config (store_row c db) config_id uid = Some c"
  by (induction db) (auto simp: query_config_def store_row_def split: if_splits)

text \<open>A row with the id and the owner asked for is what the read returns.\<close>

lemma get_own_record:
  "query_config db config_id uid = Some config
     \<Longrightarrow> get_gitlab_config uid config_id db = (Inr (from_row config), db)"
  by (simp add: get_gitlab_config_def)

lemma assign_fields_keys:
  "id' (assign_fields w u c) = id' c"
  "user_id (assign_fields w u c) = user_id c"
  "access_token_encrypted (assign_fields w u c) = access_token_encrypted c"
  by (simp_all add: assign_fields_def Let_def split: option.splits)

lemma assign_fields_is_active:
  "is_active (assign_fields w u c) =
     (case u_is_active u of
        Some b \<Rightarrow> if u_access_token u = None then b else is_active c
      | None \<Rightarrow> is_active c)"
  by (auto simp: assign_fields_def Let_def split: option.splits)

lemma revalidate_cases:
  "u_access_token u = None \<Longrightarrow> revalidate w u c = Inr (None, c)"
  "u_access_token u = Some tok \<Longrightarrow> strip (decode tok) = [] \<Longrightarrow>
     revalidate w u c = Inr (None, c)"
  "u_access_token u = Some tok \<Longrightarrow> strip (decode tok) \<noteq> [] \<Longrightarrow>
     validate_gitlab_credentials (http_url_ok w) (http_get w)
       (or_else (u_gitlab_url u) (gitlab_url c)) tok = Inr v \<Longrightarrow>
     revalidate w u c
       = Inr (Some v, c\<lparr>access_token_encrypted := encrypt_token w tok, is_active := is_valid v\<rparr>)"
  by (simp_all add: revalidate_def)

text \<open>
  An update that finds its row answers with a response and stores the row with the
  assignments made; the same query finds that row afterwards.
\<close>

lemma update_found:
  assumes "query_config db config_id uid = Some config"
    and "revalidate w u config = Inr (vr, c1)"
    and "id' c1 = id' config" and "user_id c1 = user_id config"
  shows "query_config (snd (update_gitlab_config w uid config_id u db)) config_id uid
           = Some (assign_fields w u c1)"
    and "fst (update_gitlab_config w uid config_id u db)
           = Inr (case vr of Some v \<Rightarrow> response_dict (assign_fields w u c1) v
                  | None \<Rightarrow> from_row (assign_fields w u c1))"
proof -
  from assms(1) have k: "id' config = config_id" "user_id config = uid"
    by (simp_all add: query_config_found)
  have "query_config (store_row (assign_fields w u c1) db) config_id uid
          = Some (assign_fields w u c1)"
    using assms(1) by (rule query_config_store_row) (simp_all add: assign_fields_keys assms k)
  then show "query_config (snd (update_gitlab_config w uid config_id u db)) config_id uid
           = Some (assign_fields w u c1)"
    using assms(1,2) by (simp add: update_gitlab_config_def Let_def split: option.splits)
  show "fst (update_gitlab_config w uid config_id u db)
           = Inr (case vr of Some v \<Rightarrow> response_dict (assign_fields w u c1) v
                  | None \<Rightarrow> from_row (assign_fields w u c1))"
    using assms(1,2) by (simp add: update_gitlab_config_def Let_def split: option.splits)
qed

lemma ex_validate_good:
  "validate_gitlab_credentials ex_url_ok ex_server ''https://gitlab.example'' '' ''
     = Inr \<lparr>is_valid = True, error_message = None, error_code = None,
            gitlab_username = Some ''alice''\<rparr>"
  "validate_gitlab_credentials ex_url_ok ex_server ''https://gitlab.example'' ''good''
     = Inr \<lparr>is_valid = True, error_message = None, error_code = None,
            gitlab_username = Some ''alice''\<rparr>"
  by (simp_all add: rstrip_slash_def ex_url_ok_def ex_server_def validate_gitlab_credentials_def
        check_response_def response_ok_def dict_get_def)

lemma ex_validate_expired:
  "validate_gitlab_credentials ex_url_ok ex_server ''https://other.example'' ''expired''
     = Inr (failure ''Invalid access token or token expired'' ''invalid_token'')"
  by (simp add: rstrip_slash_def ex_url_ok_def ex_server_def validate_gitlab_credentials_def
        check_response_def)

text \<open>
  Blank tokens: one space, the empty text, and the no-break space U+00A0, whose UTF-8
  bytes are \<open>C2 A0\<close>.
\<close>

lemma ex_strip:
  "strip (decode '' '') = []"
  "strip (decode []) = []"
  "strip (decode [CHR 0xC2, CHR 0xA0]) = []"
  "strip (decode ''good'') \<noteq> []"
  by (simp_all add: decode.simps strip_def is_space_def cont_def)

lemma ex_query: "query_config [ex_row] ''c1'' ''u1'' = Some ex_row"
  by (simp add: query_config_def ex_row_def)

text \<open>
  Claim C1, as the code has it. For an update that finds its row: when the request
  carries a token that is not blank (not empty after \<open>strip\<close>, which removes Python's
  white space, in ASCII and outside it), the credentials are
  validated, the stored \<open>is_active\<close> and the one in the response are the validation
  result whatever \<open>is_active\<close> the request carries, and the stored token is the
  encryption of the new one; when the request carries no token, or a blank one, the
  stored token is unchanged; when the request carries no token field, a supplied
  \<open>is_active\<close> is stored, and without one \<open>is_active\<close> is unchanged.
\<close>

theorem update_token_precedence:
  assumes found: "query_config db config_id uid = Some config"
  shows "(u_access_token u = Some tok \<and> strip (decode tok) \<noteq> []
            \<and> validate_gitlab_credentials (http_url_ok w) (http_get w)
                (or_else (u_gitlab_url u) (gitlab_url config)) tok = Inr v
          \<longrightarrow> map_option is_active
                (query_config (snd (update_gitlab_config w uid config_id u db)) config_id uid)
                = Some (is_valid v)
              \<and> map_option access_token_encrypted
                (query_config (snd (update_gitlab_config w uid config_id u db)) config_id uid)
                = Some (encrypt_token w tok)
              \<and> map_sum id r_is_active (fst (update_gitlab_config w uid config_id u db))
                = Inr (is_valid v))
       \<and> (u_access_token u = None \<or> (u_access_token u = Some tok \<and> strip (decode tok) = [])
          \<longrightarrow> map_option access_token_encrypted
                (query_config (snd (update_gitlab_config w uid config_id u db)) config_id uid)
                = Some (access_token_encrypted config))
       \<and> (u_access_token u = None \<and> u_is_active u = Some b
          \<longrightarrow> map_option is_active
                (query_config (snd (update_gitlab_config w uid config_id u db)) config_id uid)
                = Some b)
       \<and> (u_access_token u = None \<and> u_is_active u = None
          \<longrightarrow> map_option is_active
                (query_config (snd (update_gitlab_config w uid config_id u db)) config_id uid)
                = Some (is_active config))"
proof (intro conjI impI)
  assume a: "u_access_token u = Some tok \<and> strip (decode tok) \<noteq> []
            \<and> validate_gitlab_credentials (http_url_ok w) (http_get w)
                (or_else (u_gitlab_url u) (gitlab_url config)) tok = Inr v"
  then have r: "revalidate w u config
       = Inr (Some v,
              config\<lparr>access_token_encrypted := encrypt_token w tok, is_active := is_valid v\<rparr>)"
    by (simp add: revalidate_cases)
  note f = update_found [OF found r, simplified]
  from a show "map_option is_active
                (query_config (snd (update_gitlab_config w uid config_id u db)) config_id uid)
                = Some (is_valid v)"
    by (simp add: f assign_fields_is_active split: option.splits)
  show "map_option access_token_encrypted
                (query_config (snd (update_gitlab_config w uid config_id u db)) config_id uid)
                = Some (encrypt_token w tok)"
    by (simp add: f assign_fields_keys)
  from a show "map_sum id r_is_active (fst (update_gitlab_config w uid config_id u db))
                = Inr (is_valid v)"
    by (simp add: f response_dict_def from_row_def assign_fields_is_active split: option.splits)
next
  assume a: "u_access_token u = None
             \<or> (u_access_token u = Some tok \<and> strip (decode tok) = [])"
  then have r: "revalidate w u config = Inr (None, config)"
    by (auto simp: revalidate_cases)
  note f = update_found [OF found r, simplified]
  show "map_option access_token_encrypted
                (query_config (snd (update_gitlab_config w uid config_id u db)) config_id uid)
                = Some (access_token_encrypted config)"
    by (simp add: f assign_fields_keys)
next
  assume a: "u_access_token u = None \<and> u_is_active u = Some b"
  then have r: "revalidate w u config = Inr (None, config)"
    by (auto simp: revalidate_cases)
  note f = update_found [OF found r, simplified]
  from a show "map_option is_active
                (query_config (snd (update_gitlab_config w uid config_id u db)) config_id uid)
                = Some b"
    by (simp add: f assign_fields_is_active)
next
  assume a: "u_access_token u = None \<and> u_is_active u = None"
  then have r: "revalidate w u config = Inr (None, config)"
    by (auto simp: revalidate_cases)
  note f = update_found [OF found r, simplified]
  from a show "map_option is_active
                (query_config (snd (update_gitlab_config w uid config_id u db)) config_id uid)
                = Some (is_active config)"
    by (simp add: f assign_fields_is_active)
qed

theorem update_token_precedence_witness:
  "map_option is_active
     (query_config
        (snd (update_gitlab_config ex_world ''u1'' ''c1''
                \<lparr>u_config_name = None, u_gitlab_url = None, u_access_token = Some ''good'',
                 u_project_id = None, u_is_active = Some False\<rparr> [ex_row]))
        ''c1'' ''u1'') = Some True
   \<and> map_option access_token_encrypted
     (query_config
        (snd (update_gitlab_config ex_world ''u1'' ''c1''
                \<lparr>u_config_name = None, u_gitlab_url = None, u_access_token = Some ''good'',
                 u_project_id = None, u_is_active = Some False\<rparr> [ex_row]))
        ''c1'' ''u1'') = Some ''enc(good)''
   \<and> map_option access_token_encrypted
     (query_config
        (snd (update_gitlab_config ex_world ''u1'' ''c1''
                \<lparr>u_config_name = Some ''Home'', u_gitlab_url = None, u_access_token = Some [],
                 u_project_id = None, u_is_active = None\<rparr> [ex_row]))
        ''c1'' ''u1'') = Some ''enc(old)''
   \<and> map_option access_token_encrypted
     (query_config
        (snd (update_gitlab_config ex_world ''u1'' ''c1''
                \<lparr>u_config_name = None, u_gitlab_url = None,
                 u_access_token = Some [CHR 0xC2, CHR 0xA0],
                 u_project_id = None, u_is_active = None\<rparr> [ex_row]))
        ''c1'' ''u1'') = Some ''enc(old)''
   \<and> map_option is_active
     (query_config
        (snd (update_gitlab_config ex_world ''u1'' ''c1''
                \<lparr>u_config_name = None, u_gitlab_url = None, u_access_token = None,
                 u_project_id = None, u_is_active = Some True\<rparr> [ex_row]))
        ''c1'' ''u1'') = Some True"
proof (intro conjI)
  let ?u = "\<lparr>u_config_name = None, u_gitlab_url = None, u_access_token = Some ''good'',
             u_project_id = None, u_is_active = Some False\<rparr>"
  note t = update_token_precedence [OF ex_query, of ?u "''good''" ex_world
      "\<lparr>is_valid = True, error_message = None, error_code = None,
        gitlab_username = Some ''alice''\<rparr>"]
  show "map_option is_active
     (query_config (snd (update_gitlab_config ex_world ''u1'' ''c1'' ?u [ex_row])) ''c1'' ''u1'')
     = Some True"
    using t by (simp add: ex_strip ex_world_def ex_row_def or_else_def ex_validate_good)
  show "map_option access_token_encrypted
     (query_config (snd (update_gitlab_config ex_world ''u1'' ''c1'' ?u [ex_row])) ''c1'' ''u1'')
     = Some ''enc(good)''"
    using t
    by (simp add: ex_strip ex_world_def ex_row_def or_else_def ex_validate_good ex_encrypt_def)
next
  let ?u = "\<lparr>u_config_name = Some ''Home'', u_gitlab_url = None, u_access_token = Some [],
             u_project_id = None, u_is_active = None\<rparr>"
  show "map_option access_token_encrypted
     (query_config (snd (update_gitlab_config ex_world ''u1'' ''c1'' ?u [ex_row])) ''c1'' ''u1'')
     = Some ''enc(old)''"
    using update_token_precedence [OF ex_query, of ?u "[]" ex_world]
    by (simp add: ex_strip ex_row_def)
next
  let ?u = "\<lparr>u_config_name = None, u_gitlab_url = None,
             u_access_token = Some [CHR 0xC2, CHR 0xA0],
             u_project_id = None, u_is_active = None\<rparr>"
  show "map_option access_token_encrypted
     (query_config (snd (update_gitlab_config ex_world ''u1'' ''c1'' ?u [ex_row])) ''c1'' ''u1'')
     = Some ''enc(old)''"
    using update_token_precedence [OF ex_query, of ?u "[CHR 0xC2, CHR 0xA0]" ex_world]
    by (simp add: ex_strip ex_row_def)
next
  let ?u = "\<lparr>u_config_name = None, u_gitlab_url = None, u_access_token = None,
             u_project_id = None, u_is_active = Some True\<rparr>"
  show "map_option is_active
     (query_config (snd (update_gitlab_config ex_world ''u1'' ''c1'' ?u [ex_row])) ''c1'' ''u1'')
     = Some True"
    using update_token_precedence [OF ex_query, of ?u _ ex_world _ True]
    by simp
qed

text \<open>
  Claim C1 as stated fails: the request carries a token of one space, which is not the
  empty string and which the server would accept, and the update neither validates it nor
  recomputes \<open>is_active\<close>: the row stays inactive and keeps its old token.
\<close>

theorem update_blank_token_counterexample:
  "'' '' \<noteq> []
   \<and> validate_gitlab_credentials (http_url_ok ex_world) (http_get ex_world)
       (gitlab_url ex_row) '' ''
       = Inr \<lparr>is_valid = True, error_message = None, error_code = None,
              gitlab_username = Some ''alice''\<rparr>
   \<and> map_option is_active
       (query_config
          (snd (update_gitlab_config ex_world ''u1'' ''c1''
                  \<lparr>u_config_name = None, u_gitlab_url = None, u_access_token = Some '' '',
                   u_project_id = None, u_is_active = None\<rparr> [ex_row]))
          ''c1'' ''u1'') = Some False
   \<and> map_option access_token_encrypted
       (query_config
          (snd (update_gitlab_config ex_world ''u1'' ''c1''
                  \<lparr>u_config_name = None, u_gitlab_url = None, u_access_token = Some '' '',
                   u_project_id = None, u_is_active = None\<rparr> [ex_row]))
          ''c1'' ''u1'') = Some ''enc(old)''"
  by (simp add: ex_world_def ex_row_def ex_validate_good update_gitlab_config_def
        query_config_def revalidate_def ex_strip assign_fields_def store_row_def Let_def)

text \<open>
  What the update does with a manual \<open>is_active\<close> that comes with an empty or blank
  token: the token is not changed, and the manual value is dropped all the same, because
  the last test of the source asks for a token field that is absent.
\<close>

lemma update_blank_token_drops_flag:
  assumes "query_config db config_id uid = Some config"
    and "u_access_token u = Some tok" and "strip (decode tok) = []"
  shows "map_option is_active
           (query_config (snd (update_gitlab_config w uid config_id u db)) config_id uid)
           = Some (is_active config)"
proof -
  from assms(2,3) have r: "revalidate w u config = Inr (None, config)"
    by (simp add: revalidate_cases)
  note f = update_found [OF assms(1) r, simplified]
  from assms(2) show ?thesis
    by (simp add: f assign_fields_is_active split: option.splits)
qed

text \<open>
  Claim C4: when the user already has a row with the submitted URL, creation answers
  with the error for a duplicate, the HTTP exception with status 400 and the detail
  \<open>GitLab configuration for this URL already exists\<close>, whatever the world (so whatever
  the validation of the submitted token would give), and the table is unchanged.
\<close>

theorem create_duplicate_conflict:
  assumes "\<exists>c\<in>set db. user_id c = uid \<and> gitlab_url c = c_gitlab_url config_data"
  shows "create_gitlab_config w uid config_data db
           = (Inl (HTTPException 400 ''GitLab configuration for this URL already exists''), db)"
proof -
  from assms
  have "find (\<lambda>c. user_id c = uid \<and> gitlab_url c = c_gitlab_url config_data) db \<noteq> None"
    by (auto simp: find_None_iff)
  then show ?thesis
    by (auto simp: create_gitlab_config_def)
qed

theorem create_duplicate_conflict_witness:
  "create_gitlab_config ex_world ''u1''
     \<lparr>c_config_name = None, c_gitlab_url = ''https://gitlab.example'',
      c_access_token = ''good'', c_project_id = None\<rparr> [ex_row]
     = (Inl (HTTPException 400 ''GitLab configuration for this URL already exists''), [ex_row])
   \<and> create_gitlab_config ex_world ''u1''
     \<lparr>c_config_name = None, c_gitlab_url = ''https://gitlab.example'',
      c_access_token = ''expired'', c_project_id = None\<rparr> [ex_row]
     = (Inl (HTTPException 400 ''GitLab configuration for this URL already exists''), [ex_row])"
proof (intro conjI)
  show "create_gitlab_config ex_world ''u1''
     \<lparr>c_config_name = None, c_gitlab_url = ''https://gitlab.example'',
      c_access_token = ''good'', c_project_id = None\<rparr> [ex_row]
     = (Inl (HTTPException 400 ''GitLab configuration for this URL already exists''), [ex_row])"
    using create_duplicate_conflict [of "[ex_row]" "''u1''"
        "\<lparr>c_config_name = None, c_gitlab_url = ''https://gitlab.example'',
          c_access_token = ''good'', c_project_id = None\<rparr>" ex_world]
    by (simp add: ex_row_def)
  show "create_gitlab_config ex_world ''u1''
     \<lparr>c_config_name = None, c_gitlab_url = ''https://gitlab.example'',
      c_access_token = ''expired'', c_project_id = None\<rparr> [ex_row]
     = (Inl (HTTPException 400 ''GitLab configuration for this URL already exists''), [ex_row])"
    using create_duplicate_conflict [of "[ex_row]" "''u1''"
        "\<lparr>c_config_name = None, c_gitlab_url = ''https://gitlab.example'',
          c_access_token = ''expired'', c_project_id = None\<rparr>" ex_world]
    by (simp add: ex_row_def)
qed

text \<open>
  Claim C5: when the user has no row with the submitted URL and the validation of the
  submitted credentials fails, creation appends one row to the table, owned by the
  user, with the submitted URL, the encrypted token and \<open>is_active\<close> false, and the
  response has \<open>is_active\<close> false and a validation error code.
\<close>

theorem create_invalid_persists:
  assumes fresh: "\<forall>c\<in>set db. \<not> (user_id c = uid \<and> gitlab_url c = c_gitlab_url config_data)"
    and v: "validate_gitlab_credentials (http_url_ok w) (http_get w)
              (c_gitlab_url config_data) (c_access_token config_data) = Inr v"
    and invalid: "\<not> is_valid v"
  shows "\<exists>resp row.
           create_gitlab_config w uid config_data db = (Inr resp, db @ [row])
           \<and> user_id row = uid
           \<and> gitlab_url row = c_gitlab_url config_data
           \<and> access_token_encrypted row = encrypt_token w (c_access_token config_data)
           \<and> \<not> is_active row
           \<and> \<not> r_is_active resp
           \<and> r_validation_error_code resp \<noteq> None"
proof -
  from fresh
  have "find (\<lambda>c. user_id c = uid \<and> gitlab_url c = c_gitlab_url config_data) db = None"
    by (simp add: find_None_iff)
  moreover from v invalid have "error_code v \<noteq> None"
    by (rule validate_invalid_has_code)
  ultimately show ?thesis
    using v invalid by (simp add: create_gitlab_config_def response_dict_def from_row_def)
qed

theorem create_invalid_persists_witness:
  "\<exists>resp row.
     create_gitlab_config ex_world ''u1''
       \<lparr>c_config_name = None, c_gitlab_url = ''https://other.example'',
        c_access_token = ''expired'', c_project_id = None\<rparr> [ex_row]
       = (Inr resp, [ex_row] @ [row])
     \<and> user_id row = ''u1''
     \<and> gitlab_url row = ''https://other.example''
     \<and> access_token_encrypted row = ''enc(expired)''
     \<and> \<not> is_active row
     \<and> \<not> r_is_active resp
     \<and> r_validation_error_code resp \<noteq> None"
  using create_invalid_persists [of "[ex_row]" "''u1''"
      "\<lparr>c_config_name = None, c_gitlab_url = ''https://other.example'',
        c_access_token = ''expired'', c_project_id = None\<rparr>" ex_world
      "failure ''Invalid access token or token expired'' ''invalid_token''"]
  by (simp add: ex_row_def ex_world_def ex_validate_expired failure_def ex_encrypt_def)

text \<open>
  Claim C6: read, update and delete look the row up by its id and the id of the
  requesting user. When no row has both (there is no row with the id, or the row with
  the id belongs to another user), each of the three answers with the same error, the
  HTTP exception with status 404 and the detail \<open>GitLab configuration not found\<close>, and
  the table is unchanged.
\<close>

theorem foreign_record_not_found:
  assumes "\<forall>c\<in>set db. id' c = config_id \<longrightarrow> user_id c \<noteq> uid"
  shows "get_gitlab_config uid config_id db
           = (Inl (HTTPException 404 ''GitLab configuration not found''), db)
       \<and> update_gitlab_config w uid config_id config_update db
           = (Inl (HTTPException 404 ''GitLab configuration not found''), db)
       \<and> delete_gitlab_config uid config_id db
           = (Inl (HTTPException 404 ''GitLab configuration not found''), db)"
  using query_config_None [OF assms]
  by (simp add: get_gitlab_config_def update_gitlab_config_def delete_gitlab_config_def)

theorem foreign_record_not_found_witness:
  "(get_gitlab_config ''u2'' ''c1'' [ex_row]
      = (Inl (HTTPException 404 ''GitLab configuration not found''), [ex_row])
    \<and> update_gitlab_config ex_world ''u2'' ''c1''
        \<lparr>u_config_name = Some ''Mine'', u_gitlab_url = None, u_access_token = Some ''good'',
         u_project_id = None, u_is_active = None\<rparr> [ex_row]
      = (Inl (HTTPException 404 ''GitLab configuration not found''), [ex_row])
    \<and> delete_gitlab_config ''u2'' ''c1'' [ex_row]
      = (Inl (HTTPException 404 ''GitLab configuration not found''), [ex_row]))
   \<and> (get_gitlab_config ''u1'' ''c7'' [ex_row]
      = (Inl (HTTPException 404 ''GitLab configuration not found''), [ex_row])
    \<and> update_gitlab_config ex_world ''u1'' ''c7''
        \<lparr>u_config_name = Some ''Mine'', u_gitlab_url = None, u_access_token = Some ''good'',
         u_project_id = None, u_is_active = None\<rparr> [ex_row]
      = (Inl (HTTPException 404 ''GitLab configuration not found''), [ex_row])
    \<and> delete_gitlab_config ''u1'' ''c7'' [ex_row]
      = (Inl (HTTPException 404 ''GitLab configuration not found''), [ex_row]))"
proof (rule conjI)
  have "\<forall>c\<in>set [ex_row]. id' c = ''c1'' \<longrightarrow> user_id c \<noteq> ''u2''"
    by (simp add: ex_row_def)
  then show "get_gitlab_config ''u2'' ''c1'' [ex_row]
      = (Inl (HTTPException 404 ''GitLab configuration not found''), [ex_row])
    \<and> update_gitlab_config ex_world ''u2'' ''c1''
        \<lparr>u_config_name = Some ''Mine'', u_gitlab_url = None, u_access_token = Some ''good'',
         u_project_id = None, u_is_active = None\<rparr> [ex_row]
      = (Inl (HTTPException 404 ''GitLab configuration not found''), [ex_row])
    \<and> delete_gitlab_config ''u2'' ''c1'' [ex_row]
      = (Inl (HTTPException 404 ''GitLab configuration not found''), [ex_row])"
    by (rule foreign_record_not_found)
  have "\<forall>c\<in>set [ex_row]. id' c = ''c7'' \<longrightarrow> user_id c \<noteq> ''u1''"
    by (simp add: ex_row_def)
  then show "get_gitlab_config ''u1'' ''c7'' [ex_row]
      = (Inl (HTTPException 404 ''GitLab configuration not found''), [ex_row])
    \<and> update_gitlab_config ex_world ''u1'' ''c7''
        \<lparr>u_config_name = Some ''Mine'', u_gitlab_url = None, u_access_token = Some ''good'',
         u_project_id = None, u_is_active = None\<rparr> [ex_row]
      = (Inl (HTTPException 404 ''GitLab configuration not found''), [ex_row])
    \<and> delete_gitlab_config ''u1'' ''c7'' [ex_row]
      = (Inl (HTTPException 404 ''GitLab configuration not found''), [ex_row])"
    by (rule foreign_record_not_found)
qed

section \<open>Properties of the command dispatcher\<close>

lemma use_last_config_None:
  assumes "last_config_id = None \<or> last_config_id = Some []
           \<or> (\<forall>c\<in>set (gitlab_configs agent). Some (id' c) \<noteq> last_config_id)"
  shows "use_last_config agent last_config_id = None"
proof (cases last_config_id)
  case None
  then show ?thesis by (simp add: use_last_config_def)
next
  case (Some i)
  show ?thesis
  proof (cases "i = []")
    case True
    with Some show ?thesis by (simp add: use_last_config_def)
  next
    case False
    with Some assms have "\<forall>c\<in>set (gitlab_configs agent). id' c \<noteq> i"
      by auto
    then have "find (\<lambda>config. id' config = i) (gitlab_configs agent) = None"
      by (simp add: find_None_iff)
    with Some False show ?thesis
      by (simp add: use_last_config_def select_config_by_id_def)
  qed
qed

lemma use_last_config_Some:
  assumes "last_config_id = Some i" and "i \<noteq> []" and "c \<in> set (gitlab_configs agent)"
    and "id' c = i"
  shows "\<exists>agent'. use_last_config agent last_config_id = Some agent'"
proof -
  from assms(3,4) have "find (\<lambda>config. id' config = i) (gitlab_configs agent) \<noteq> None"
    by (auto simp: find_None_iff)
  with assms(1,2) show ?thesis
    by (auto simp: use_last_config_def select_config_by_id_def)
qed

lemma resolve_config_resolved:
  assumes "selected_config agent \<noteq> None
           \<or> (\<exists>i. last_config_id = Some i \<and> i \<noteq> []
                 \<and> (\<exists>c\<in>set (gitlab_configs agent). id' c = i))
           \<or> length (filter is_active (gitlab_configs agent)) = 1"
  shows "\<exists>agent'. resolve_config agent last_config_id = Inr agent'"
proof (cases "selected_config agent \<noteq> None")
  case True
  then show ?thesis by (simp add: resolve_config_def)
next
  case unselected: False
  show ?thesis
  proof (cases "use_last_config agent last_config_id")
    case (Some a)
    with unselected show ?thesis by (simp add: resolve_config_def)
  next
    case None
    have "length (filter is_active (gitlab_configs agent)) = 1"
    proof (rule ccontr)
      assume "length (filter is_active (gitlab_configs agent)) \<noteq> 1"
      with assms unselected obtain i c where "last_config_id = Some i" "i \<noteq> []"
        "c \<in> set (gitlab_configs agent)" "id' c = i"
        by auto
      then have "\<exists>agent'. use_last_config agent last_config_id = Some agent'"
        by (rule use_last_config_Some)
      with None show False by simp
    qed
    with unselected None show ?thesis by (simp add: resolve_config_def)
  qed
qed

text \<open>When nothing is selected and nothing can be resolved, the prompt is returned.\<close>

lemma resolve_config_prompt:
  assumes "\<not> (selected_config agent \<noteq> None
              \<or> (\<exists>i. last_config_id = Some i \<and> i \<noteq> []
                    \<and> (\<exists>c\<in>set (gitlab_configs agent). id' c = i))
              \<or> length (filter is_active (gitlab_configs agent)) = 1)"
  shows "resolve_config agent last_config_id
           = Inl (''Please select a GitLab configuration first:'' @ nl @ nl
                  @ list_gitlab_configs agent @ nl @ nl
                  @ ''Then use `/show-mr` or `/review-mr` to get started.'')"
proof -
  from assms have none: "selected_config agent = None"
    and many: "length (filter is_active (gitlab_configs agent)) \<noteq> 1"
    by auto
  have "last_config_id = None \<or> last_config_id = Some []
        \<or> (\<forall>c\<in>set (gitlab_configs agent). Some (id' c) \<noteq> last_config_id)"
  proof (cases last_config_id)
    case None
    then show ?thesis by simp
  next
    case (Some i)
    with assms show ?thesis by (cases "i = []") auto
  qed
  then have "use_last_config agent last_config_id = None"
    by (rule use_last_config_None)
  with none many show ?thesis
    by (simp add: resolve_config_def)
qed

text \<open>\<open>contains\<close> is the substring test.\<close>

lemma contains_iff: "contains needle hay \<longleftrightarrow> (\<exists>pre suf. hay = pre @ needle @ suf)"
proof (induction hay)
  case Nil
  then show ?case by auto
next
  case (Cons c cs)
  show ?case
  proof
    assume "contains needle (c # cs)"
    then consider "prefix needle (c # cs)" | "contains needle cs"
      by auto
    then show "\<exists>pre suf. c # cs = pre @ needle @ suf"
    proof cases
      case 1
      then obtain suf where "c # cs = needle @ suf"
        by (auto simp: prefix_def)
      then have "c # cs = [] @ needle @ suf" by simp
      then show ?thesis by blast
    next
      case 2
      with Cons.IH obtain pre suf where "cs = pre @ needle @ suf" by blast
      then have "c # cs = (c # pre) @ needle @ suf" by simp
      then show ?thesis by blast
    qed
  next
    assume "\<exists>pre suf. c # cs = pre @ needle @ suf"
    then obtain pre suf where e: "c # cs = pre @ needle @ suf" by blast
    show "contains needle (c # cs)"
    proof (cases pre)
      case Nil
      with e have "prefix needle (c # cs)" by (simp add: prefix_def)
      then show ?thesis by simp
    next
      case (Cons p ps)
      with e have "cs = ps @ needle @ suf" by simp
      with Cons.IH have "contains needle cs" by blast
      then show ?thesis by simp
    qed
  qed
qed

text \<open>
  The matcher \<open>re_search\<close> finds a match exactly when the text has a merge-request
  reference, whatever the digits of the Unicode database are.
\<close>

lemma literals:
  "decode ''!'' = [33]"
  "decode ''mr'' = [109, 114]"
  "decode ''merge'' = [109, 101, 114, 103, 101]"
  "decode ''request'' = [114, 101, 113, 117, 101, 115, 116]"
  by (simp_all add: decode.simps)

lemma span_spaces:
  assumes "list_all is_space ws" and "\<not> is_space y"
  shows "takeWhile is_space (ws @ y # ys) = ws" and "dropWhile is_space (ws @ y # ys) = y # ys"
  using assms by (induction ws) auto

lemma group_one_iff:
  "group_one ud r \<noteq> None \<longleftrightarrow>
     (\<exists>ws d rest. r = ws @ d # rest \<and> list_all is_space ws \<and> is_digit ud d)"
proof (induction r)
  case Nil
  then show ?case by simp
next
  case (Cons c cs)
  show ?case
  proof
    assume a: "group_one ud (c # cs) \<noteq> None"
    show "\<exists>ws d rest. c # cs = ws @ d # rest \<and> list_all is_space ws \<and> is_digit ud d"
    proof (cases "is_space c \<and> group_one ud cs \<noteq> None")
      case True
      with Cons.IH obtain ws d rest where "cs = ws @ d # rest" "list_all is_space ws"
        "is_digit ud d"
        by blast
      with True have "c # cs = (c # ws) @ d # rest \<and> list_all is_space (c # ws)
          \<and> is_digit ud d"
        by simp
      then show ?thesis by blast
    next
      case False
      with a have "is_digit ud c"
        by (auto split: option.splits if_splits)
      then have "c # cs = [] @ c # cs \<and> list_all is_space [] \<and> is_digit ud c"
        by simp
      then show ?thesis by blast
    qed
  next
    assume "\<exists>ws d rest. c # cs = ws @ d # rest \<and> list_all is_space ws \<and> is_digit ud d"
    then obtain ws d rest where e: "c # cs = ws @ d # rest" and ws: "list_all is_space ws"
      and d: "is_digit ud d"
      by blast
    show "group_one ud (c # cs) \<noteq> None"
    proof (cases ws)
      case Nil
      with e d have "is_digit ud c" by simp
      then show ?thesis by (simp split: option.splits)
    next
      case (Cons w ws')
      with e ws have "is_space c" "cs = ws' @ d # rest" "list_all is_space ws'"
        by simp_all
      with d Cons.IH have "group_one ud cs \<noteq> None" by blast
      with \<open>is_space c\<close> show ?thesis by (auto split: option.splits)
    qed
  qed
qed

lemma alternative_separator:
  assumes "separator tok"
  shows "alternative (tok @ r) = Some r"
proof -
  from assms consider "tok = [33]" | "tok = [109, 114]"
    | sp where "sp \<noteq> []" "list_all is_space sp"
        "tok = [109, 101, 114, 103, 101] @ sp @ [114, 101, 113, 117, 101, 115, 116]"
    by (auto simp: separator_def literals)
  then show ?thesis
  proof cases
    case 1
    then show ?thesis by (simp add: alternative_def literals)
  next
    case 2
    then show ?thesis by (simp add: alternative_def literals)
  next
    case 3
    have r: "\<not> is_space 114" by (simp add: is_space_def)
    have "takeWhile is_space (sp @ 114 # [101, 113, 117, 101, 115, 116] @ r) = sp"
      "dropWhile is_space (sp @ 114 # [101, 113, 117, 101, 115, 116] @ r)
         = 114 # [101, 113, 117, 101, 115, 116] @ r"
      using span_spaces [OF 3(2) r] by simp_all
    with 3 show ?thesis by (simp add: alternative_def literals)
  qed
qed

lemma alternative_Some:
  assumes "alternative s = Some r"
  shows "\<exists>tok. separator tok \<and> s = tok @ r"
proof -
  consider "prefix [33] s" | "\<not> prefix [33] s" "prefix [109, 114] s"
    | "\<not> prefix [33] s" "\<not> prefix [109, 114] s" "prefix [109, 101, 114, 103, 101] s"
    | "\<not> prefix [33] s" "\<not> prefix [109, 114] s" "\<not> prefix [109, 101, 114, 103, 101] s"
    by blast
  then show ?thesis
  proof cases
    case 1
    with assms have "r = drop 1 s" by (simp add: alternative_def literals)
    with 1 have "s = [33] @ r" by (auto simp: prefix_def)
    then show ?thesis by (auto simp: separator_def literals)
  next
    case 2
    with assms have "r = drop 2 s" by (simp add: alternative_def literals)
    with 2 have "s = [109, 114] @ r" by (auto simp: prefix_def)
    then show ?thesis by (auto simp: separator_def literals)
  next
    case 3
    then obtain r0 where s: "s = [109, 101, 114, 103, 101] @ r0" by (auto simp: prefix_def)
    with 3 assms have t: "takeWhile is_space r0 \<noteq> []"
      and p: "prefix [114, 101, 113, 117, 101, 115, 116] (dropWhile is_space r0)"
      and r: "r = drop 7 (dropWhile is_space r0)"
      by (auto simp: alternative_def literals Let_def split: if_splits)
    from p r have "dropWhile is_space r0 = [114, 101, 113, 117, 101, 115, 116] @ r"
      by (auto simp: prefix_def)
    then have "r0 = takeWhile is_space r0 @ [114, 101, 113, 117, 101, 115, 116] @ r"
      by (metis takeWhile_dropWhile_id)
    with s have "s = ([109, 101, 114, 103, 101] @ takeWhile is_space r0
                       @ [114, 101, 113, 117, 101, 115, 116]) @ r"
      by simp
    moreover have "list_all is_space (takeWhile is_space r0)"
      by (simp add: list_all_iff) (meson set_takeWhileD)
    ultimately show ?thesis using t unfolding separator_def literals by blast
  next
    case 4
    with assms show ?thesis by (simp add: alternative_def literals)
  qed
qed

lemma match_here_iff:
  "match_here ud s \<noteq> None \<longleftrightarrow>
     (\<exists>tok ws d rest.
        s = tok @ ws @ d # rest \<and> separator tok \<and> list_all is_space ws \<and> is_digit ud d)"
proof
  assume "match_here ud s \<noteq> None"
  then obtain r where a: "alternative s = Some r" and g: "group_one ud r \<noteq> None"
    by (auto simp: match_here_def split: option.splits)
  from g obtain ws d rest where r: "r = ws @ d # rest" "list_all is_space ws" "is_digit ud d"
    using group_one_iff by blast
  from a obtain tok where tok: "separator tok" "s = tok @ r"
    using alternative_Some by blast
  with r show "\<exists>tok ws d rest. s = tok @ ws @ d # rest \<and> separator tok
      \<and> list_all is_space ws \<and> is_digit ud d"
    by blast
next
  assume "\<exists>tok ws d rest. s = tok @ ws @ d # rest \<and> separator tok
      \<and> list_all is_space ws \<and> is_digit ud d"
  then obtain tok ws d rest where s: "s = tok @ ws @ d # rest" and tok: "separator tok"
    and ws: "list_all is_space ws" and d: "is_digit ud d"
    by blast
  from tok s have "alternative s = Some (ws @ d # rest)"
    by (simp add: alternative_separator)
  moreover from ws d have "group_one ud (ws @ d # rest) \<noteq> None"
    using group_one_iff by blast
  ultimately show "match_here ud s \<noteq> None"
    by (simp add: match_here_def)
qed

lemma re_search_iff:
  "re_search ud s \<noteq> None \<longleftrightarrow> (\<exists>pre suf. s = pre @ suf \<and> match_here ud suf \<noteq> None)"
proof (induction s)
  case Nil
  then show ?case by simp
next
  case (Cons c cs)
  show ?case
  proof
    assume a: "re_search ud (c # cs) \<noteq> None"
    show "\<exists>pre suf. c # cs = pre @ suf \<and> match_here ud suf \<noteq> None"
    proof (cases "match_here ud (c # cs)")
      case None
      with a have "re_search ud cs \<noteq> None" by simp
      with Cons.IH obtain pre suf where "cs = pre @ suf" "match_here ud suf \<noteq> None"
        by blast
      then have "c # cs = (c # pre) @ suf \<and> match_here ud suf \<noteq> None" by simp
      then show ?thesis by blast
    next
      case (Some ds)
      then have "c # cs = [] @ (c # cs) \<and> match_here ud (c # cs) \<noteq> None" by simp
      then show ?thesis by blast
    qed
  next
    assume "\<exists>pre suf. c # cs = pre @ suf \<and> match_here ud suf \<noteq> None"
    then obtain pre suf where e: "c # cs = pre @ suf" and m: "match_here ud suf \<noteq> None"
      by blast
    show "re_search ud (c # cs) \<noteq> None"
    proof (cases pre)
      case Nil
      with e m show ?thesis by auto
    next
      case (Cons p ps)
      with e have "cs = ps @ suf" by simp
      with m Cons.IH have "re_search ud cs \<noteq> None" by blast
      then show ?thesis by (auto split: option.splits)
    qed
  qed
qed

lemma re_search_reference: "re_search ud s \<noteq> None \<longleftrightarrow> mr_reference ud s"
  unfolding re_search_iff match_here_iff mr_reference_def by (metis append.assoc)

text \<open>
  Examples: a reference in ASCII, and one whose digits are the fullwidth digits
  U+FF14 and U+FF15 (UTF-8 bytes \<open>EF BC 94\<close> and \<open>EF BC 95\<close>), which \<open>int\<close> reads as 45.
\<close>

lemma ex_lower:
  "lower ex_unicode (decode ''Show me Merge  Request !456 please'')
     = decode ''show me merge  request !456 please''"
  "lower ex_unicode (decode ''Hello there'') = decode ''hello there''"
  "lower ex_unicode (decode [CHR ''!'', CHR 0xEF, CHR 0xBC, CHR 0x94, CHR 0xEF, CHR 0xBC, CHR 0x95])
     = [33, 0xFF14, 0xFF15]"
  by (simp_all add: decode.simps cont_def lower_def ascii_lower_def ex_unicode_def ex_lower_def)

lemma ex_reference:
  "re_search ex_unicode (decode ''show me merge  request !456 please'') = Some (decode ''456'')"
  "int_of_digits ex_unicode (decode ''456'') = 456"
  by (simp_all add: decode.simps match_here_def alternative_def is_space_def is_digit_def
        decimal_def int_of_digits_def)

lemma ex_fullwidth:
  "re_search ex_unicode [33, 0xFF14, 0xFF15] = Some [0xFF14, 0xFF15]"
  "int_of_digits ex_unicode [0xFF14, 0xFF15] = 45"
  by (simp_all add: decode.simps match_here_def alternative_def is_space_def is_digit_def
        decimal_def int_of_digits_def ex_unicode_def ex_decimal_def)

lemma ex_fullwidth_details:
  "fst (handle_query ex_unicode ex_tools (ex_agent [ex_home]) None
          [CHR ''!'', CHR 0xEF, CHR 0xBC, CHR 0x94, CHR 0xEF, CHR 0xBC, CHR 0x95] None)
     = Inr (Some (ex_details_tool (Some ex_home) 45))"
proof -
  have "resolve_config (ex_agent [ex_home]) None
          = Inr ((ex_agent [ex_home])\<lparr>selected_config := Some ex_home\<rparr>)"
    by (simp add: resolve_config_def use_last_config_def ex_agent_def ex_home_def)
  then show ?thesis
    by (simp add: handle_query_def ex_lower ex_fullwidth ex_tools_def Let_def
          del: re_search.simps)
qed

lemma ex_no_reference: "re_search ex_unicode (lower ex_unicode (decode ''Hello there'')) = None"
  by (simp only: ex_lower) (simp add: decode.simps match_here_def alternative_def)

lemma ex_no_keyword: "\<not> has_list_keyword (lower ex_unicode (decode ''Hello there''))"
  by (simp only: ex_lower) (simp add: decode.simps has_list_keyword_def list_keywords_def)

lemma ex_no_mr_reference: "\<not> mr_reference ex_unicode (lower ex_unicode (decode ''Hello there''))"
  using ex_no_reference re_search_reference by blast

text \<open>
  Claim C8: \<open>handle_query\<close> on an agent with no configuration selected and a remembered
  id that is absent, empty or the id of none of the user's configurations. When exactly
  one configuration is active, that one is selected, in the agent and for the tools.
  When more than one is active, the answer is the prompt with the enumerated list of the
  user's configurations, and the agent (with nothing selected) and the configuration of
  the tools stay as they were.
\<close>

theorem auto_select_or_prompt:
  assumes none: "selected_config agent = None"
    and last: "last_config_id = None \<or> last_config_id = Some []
               \<or> (\<forall>c\<in>set (gitlab_configs agent). Some (id' c) \<noteq> last_config_id)"
  shows "(filter is_active (gitlab_configs agent) = [c] \<longrightarrow>
            selected_config (fst (snd (handle_query ud t agent current query last_config_id)))
              = Some c
          \<and> snd (snd (handle_query ud t agent current query last_config_id)) = Some c)
       \<and> (length (filter is_active (gitlab_configs agent)) > 1 \<longrightarrow>
            handle_query ud t agent current query last_config_id
              = (Inr (Some (''Please select a GitLab configuration first:'' @ nl @ nl
                            @ join (nl @ nl)
                                (map config_entry (enumerate 1 (gitlab_configs agent)))
                            @ nl @ nl
                            @ ''Then use `/show-mr` or `/review-mr` to get started.'')),
                 agent, current))"
proof (intro conjI impI)
  note u = use_last_config_None [OF last]
  assume one: "filter is_active (gitlab_configs agent) = [c]"
  with none u have r: "resolve_config agent last_config_id
      = Inr (agent\<lparr>selected_config := Some c\<rparr>)"
    by (simp add: resolve_config_def)
  show "selected_config (fst (snd (handle_query ud t agent current query last_config_id)))
              = Some c"
    by (simp add: handle_query_def r Let_def split: option.splits)
  show "snd (snd (handle_query ud t agent current query last_config_id)) = Some c"
    by (simp add: handle_query_def r Let_def split: option.splits)
next
  note u = use_last_config_None [OF last]
  assume many: "length (filter is_active (gitlab_configs agent)) > 1"
  then have "gitlab_configs agent \<noteq> []"
    by auto
  then have l: "list_gitlab_configs agent
      = join (nl @ nl) (map config_entry (enumerate 1 (gitlab_configs agent)))"
    by (simp add: list_gitlab_configs_def)
  from none u many have "resolve_config agent last_config_id
      = Inl (''Please select a GitLab configuration first:'' @ nl @ nl
             @ list_gitlab_configs agent @ nl @ nl
             @ ''Then use `/show-mr` or `/review-mr` to get started.'')"
    by (simp add: resolve_config_def)
  then show "handle_query ud t agent current query last_config_id
              = (Inr (Some (''Please select a GitLab configuration first:'' @ nl @ nl
                            @ join (nl @ nl)
                                (map config_entry (enumerate 1 (gitlab_configs agent)))
                            @ nl @ nl
                            @ ''Then use `/show-mr` or `/review-mr` to get started.'')),
                 agent, current)"
    by (simp add: handle_query_def l)
qed

theorem auto_select_or_prompt_witness:
  "(selected_config
      (fst (snd (handle_query ex_unicode ex_tools (ex_agent [ex_row, ex_home]) None
                   ''show my MRs'' None)))
      = Some ex_home
    \<and> snd (snd (handle_query ex_unicode ex_tools (ex_agent [ex_row, ex_home]) None
                   ''show my MRs'' None))
      = Some ex_home)
   \<and> handle_query ex_unicode ex_tools (ex_agent [ex_home, ex_lab]) None ''show my MRs''
        (Some ''c9'')
      = (Inr (Some (''Please select a GitLab configuration first:'' @ nl @ nl
                    @ join (nl @ nl) (map config_entry (enumerate 1 [ex_home, ex_lab]))
                    @ nl @ nl
                    @ ''Then use `/show-mr` or `/review-mr` to get started.'')),
         ex_agent [ex_home, ex_lab], None)"
proof (rule conjI)
  show "selected_config
      (fst (snd (handle_query ex_unicode ex_tools (ex_agent [ex_row, ex_home]) None
                   ''show my MRs'' None)))
      = Some ex_home
    \<and> snd (snd (handle_query ex_unicode ex_tools (ex_agent [ex_row, ex_home]) None
                   ''show my MRs'' None))
      = Some ex_home"
    using auto_select_or_prompt [of "ex_agent [ex_row, ex_home]" None ex_home ex_unicode
        ex_tools None "''show my MRs''"]
    by (simp add: ex_agent_def ex_row_def ex_home_def)
  show "handle_query ex_unicode ex_tools (ex_agent [ex_home, ex_lab]) None ''show my MRs''
        (Some ''c9'')
      = (Inr (Some (''Please select a GitLab configuration first:'' @ nl @ nl
                    @ join (nl @ nl) (map config_entry (enumerate 1 [ex_home, ex_lab]))
                    @ nl @ nl
                    @ ''Then use `/show-mr` or `/review-mr` to get started.'')),
         ex_agent [ex_home, ex_lab], None)"
    using auto_select_or_prompt [of "ex_agent [ex_home, ex_lab]" "Some ''c9''" _ ex_unicode
        ex_tools None "''show my MRs''"]
    by (simp add: ex_agent_def ex_lab_def ex_home_def)
qed

text \<open>
  Claim C9, as the code has it. When a configuration is selected or can be resolved
  (one is already selected, or the remembered id is the id of one of the user's
  configurations, or exactly one configuration is active), a query whose lower-case
  form has no merge-request reference and contains none of the list keywords is answered
  with \<open>None\<close>. Otherwise every query, whatever it contains, is answered with the prompt
  to select a configuration, and the agent and the configuration of the tools stay as
  they were. The white space and the digits of a reference are Python's, in ASCII and
  outside it.
\<close>

theorem no_pattern_none_or_prompt:
  "((selected_config agent \<noteq> None
       \<or> (\<exists>i. last_config_id = Some i \<and> i \<noteq> []
             \<and> (\<exists>c\<in>set (gitlab_configs agent). id' c = i))
       \<or> length (filter is_active (gitlab_configs agent)) = 1)
      \<and> \<not> mr_reference ud (lower ud (decode query))
      \<and> (\<forall>keyword\<in>set list_keywords. \<not> contains (decode keyword) (lower ud (decode query)))
    \<longrightarrow> fst (handle_query ud t agent current query last_config_id) = Inr None)
   \<and> (\<not> (selected_config agent \<noteq> None
           \<or> (\<exists>i. last_config_id = Some i \<and> i \<noteq> []
                 \<and> (\<exists>c\<in>set (gitlab_configs agent). id' c = i))
           \<or> length (filter is_active (gitlab_configs agent)) = 1)
    \<longrightarrow> handle_query ud t agent current query last_config_id
          = (Inr (Some (''Please select a GitLab configuration first:'' @ nl @ nl
                        @ list_gitlab_configs agent @ nl @ nl
                        @ ''Then use `/show-mr` or `/review-mr` to get started.'')),
             agent, current))"
proof (intro conjI impI)
  assume a: "(selected_config agent \<noteq> None
       \<or> (\<exists>i. last_config_id = Some i \<and> i \<noteq> []
             \<and> (\<exists>c\<in>set (gitlab_configs agent). id' c = i))
       \<or> length (filter is_active (gitlab_configs agent)) = 1)
      \<and> \<not> mr_reference ud (lower ud (decode query))
      \<and> (\<forall>keyword\<in>set list_keywords. \<not> contains (decode keyword) (lower ud (decode query)))"
  then obtain agent' where "resolve_config agent last_config_id = Inr agent'"
    using resolve_config_resolved by blast
  moreover from a have "\<not> has_list_keyword (lower ud (decode query))"
    by (simp add: has_list_keyword_def list_ex_iff)
  moreover from a have "re_search ud (lower ud (decode query)) = None"
    using re_search_reference by blast
  ultimately show "fst (handle_query ud t agent current query last_config_id) = Inr None"
    by (simp add: handle_query_def Let_def)
next
  assume "\<not> (selected_config agent \<noteq> None
           \<or> (\<exists>i. last_config_id = Some i \<and> i \<noteq> []
                 \<and> (\<exists>c\<in>set (gitlab_configs agent). id' c = i))
           \<or> length (filter is_active (gitlab_configs agent)) = 1)"
  then have "resolve_config agent last_config_id
           = Inl (''Please select a GitLab configuration first:'' @ nl @ nl
                  @ list_gitlab_configs agent @ nl @ nl
                  @ ''Then use `/show-mr` or `/review-mr` to get started.'')"
    by (rule resolve_config_prompt)
  then show "handle_query ud t agent current query last_config_id
          = (Inr (Some (''Please select a GitLab configuration first:'' @ nl @ nl
                        @ list_gitlab_configs agent @ nl @ nl
                        @ ''Then use `/show-mr` or `/review-mr` to get started.'')),
             agent, current)"
    by (simp add: handle_query_def)
qed

theorem no_pattern_none_or_prompt_witness:
  "fst (handle_query ex_unicode ex_tools (ex_agent [ex_row, ex_home]) None ''Hello there'' None)
     = Inr None
   \<and> fst (handle_query ex_unicode ex_tools (ex_agent [ex_home, ex_lab]) None ''Hello there''
           (Some ''c3''))
     = Inr None
   \<and> handle_query ex_unicode ex_tools (ex_agent []) None ''show my MRs'' (Some ''c3'')
     = (Inr (Some (''Please select a GitLab configuration first:'' @ nl @ nl
                   @ list_gitlab_configs (ex_agent []) @ nl @ nl
                   @ ''Then use `/show-mr` or `/review-mr` to get started.'')),
        ex_agent [], None)"
proof (intro conjI)
  have k: "\<forall>keyword\<in>set list_keywords.
      \<not> contains (decode keyword) (lower ex_unicode (decode ''Hello there''))"
    using ex_no_keyword by (simp add: has_list_keyword_def list_ex_iff)
  have "length (filter is_active (gitlab_configs (ex_agent [ex_row, ex_home]))) = 1"
    by (simp add: ex_agent_def ex_row_def ex_home_def)
  then show "fst (handle_query ex_unicode ex_tools (ex_agent [ex_row, ex_home]) None
                ''Hello there'' None) = Inr None"
    using no_pattern_none_or_prompt [of "ex_agent [ex_row, ex_home]" None ex_unicode
        "''Hello there''" ex_tools None] ex_no_mr_reference k
    by blast
  have "\<exists>c\<in>set (gitlab_configs (ex_agent [ex_home, ex_lab])). id' c = ''c3''"
    by (simp add: ex_agent_def ex_lab_def)
  then show "fst (handle_query ex_unicode ex_tools (ex_agent [ex_home, ex_lab]) None
                ''Hello there'' (Some ''c3'')) = Inr None"
    using no_pattern_none_or_prompt [of "ex_agent [ex_home, ex_lab]" "Some ''c3''" ex_unicode
        "''Hello there''" ex_tools None] ex_no_mr_reference k
    by simp
  show "handle_query ex_unicode ex_tools (ex_agent []) None ''show my MRs'' (Some ''c3'')
     = (Inr (Some (''Please select a GitLab configuration first:'' @ nl @ nl
                   @ list_gitlab_configs (ex_agent []) @ nl @ nl
                   @ ''Then use `/show-mr` or `/review-mr` to get started.'')),
        ex_agent [], None)"
    using no_pattern_none_or_prompt [of "ex_agent []" "Some ''c3''" ex_unicode
        "''show my MRs''" ex_tools None]
    by (simp add: ex_agent_def)
qed

text \<open>
  Claim C9 as stated fails: the user has two active configurations and none is
  selected; the query has no merge-request reference and none of the list keywords,
  and the answer is the prompt to select a configuration, not \<open>None\<close>.
\<close>

theorem no_pattern_prompt_counterexample:
  "\<not> mr_reference ex_unicode (lower ex_unicode (decode ''Hello there''))
   \<and> \<not> has_list_keyword (lower ex_unicode (decode ''Hello there''))
   \<and> fst (handle_query ex_unicode ex_tools (ex_agent [ex_home, ex_lab]) None ''Hello there''
           None)
       = Inr (Some (''Please select a GitLab configuration first:'' @ nl @ nl
                    @ list_gitlab_configs (ex_agent [ex_home, ex_lab]) @ nl @ nl
                    @ ''Then use `/show-mr` or `/review-mr` to get started.''))"
  by (simp add: ex_no_mr_reference ex_no_keyword handle_query_def resolve_config_def
        use_last_config_def ex_agent_def ex_home_def ex_lab_def)

section \<open>Properties of the merge-request listing\<close>

lemma format_loop_append: "format_loop mrs mr_list = mr_list @ map format_mr mrs"
  by (induction mrs arbitrary: mr_list) simp_all

lemma mr_entries_take: "mr_entries merge_requests = map format_mr (take 10 merge_requests)"
  by (simp add: mr_entries_def format_loop_append)

lemma length_mr_entries: "length (mr_entries merge_requests) = min 10 (length merge_requests)"
  by (simp add: mr_entries_take min.commute)

lemma str_nat_2: "str_nat 2 = ''2''"
  by (simp add: str_nat.simps digit_char_def)

lemma list_merge_requests_fetched:
  assumes "current = Some config" and "project_id config = Some pid" and "pid \<noteq> []"
    and "decrypt_token tw (access_token_encrypted config) = Inr token"
    and "get_merge_requests tw
           (gitlab_url config @ ''/api/v4/projects/'' @ pid @ ''/merge_requests'') token state
           = Fetched merge_requests"
  shows "list_merge_requests tw current state
           = (if merge_requests = [] then
                ''No '' @ state @ '' merge requests found in project '' @ pid @ ''.''
              else render_list pid state merge_requests)"
  using assms by (simp add: list_merge_requests_def or_else_def)

text \<open>
  Claim C7: \<open>list_merge_requests\<close> with a configuration selected, a project id set, a
  token that decrypts and a server that returns a list. An empty list gives the message
  that no merge request was found. Otherwise the text is the header, then the entries of
  the first ten merge requests of the list (of all of them when there are at most ten)
  joined by blank lines, then, when the server returned more than ten, the notice with
  the number of those not shown, and nothing otherwise. With twelve merge requests
  returned there are ten entries and the notice reads \<open>... and 2 more merge requests\<close>.
\<close>

theorem list_caps_at_ten:
  assumes "current = Some config" and "project_id config = Some pid" and "pid \<noteq> []"
    and "decrypt_token tw (access_token_encrypted config) = Inr token"
    and "get_merge_requests tw
           (gitlab_url config @ ''/api/v4/projects/'' @ pid @ ''/merge_requests'') token state
           = Fetched merge_requests"
  shows "(merge_requests = [] \<longrightarrow>
            list_merge_requests tw current state
              = ''No '' @ state @ '' merge requests found in project '' @ pid @ ''.'')
       \<and> (merge_requests \<noteq> [] \<longrightarrow>
            list_merge_requests tw current state
              = ''# '' @ clipboard @ '' Merge Requests in Project '' @ pid @ nl @ nl
                @ ''**Filter:** '' @ state @ '' | **Total:** ''
                @ str_nat (length merge_requests) @ nl @ nl
                @ ''---'' @ nl @ nl
                @ join (nl @ nl) (map format_mr (take 10 merge_requests))
                @ (if length merge_requests > 10 then
                     nl @ nl @ ''---'' @ nl @ nl @ ''*... and ''
                       @ str_nat (length merge_requests - 10) @ '' more merge requests*''
                   else []))
       \<and> length (map format_mr (take 10 merge_requests)) = min 10 (length merge_requests)
       \<and> (length merge_requests = 12 \<longrightarrow>
            length (map format_mr (take 10 merge_requests)) = 10
            \<and> list_merge_requests tw current state
              = ''# '' @ clipboard @ '' Merge Requests in Project '' @ pid @ nl @ nl
                @ ''**Filter:** '' @ state @ '' | **Total:** '' @ str_nat 12 @ nl @ nl
                @ ''---'' @ nl @ nl
                @ join (nl @ nl) (map format_mr (take 10 merge_requests))
                @ nl @ nl @ ''---'' @ nl @ nl @ ''*... and 2 more merge requests*'')"
proof (intro conjI impI)
  note l = list_merge_requests_fetched [OF assms]
  show "length (map format_mr (take 10 merge_requests)) = min 10 (length merge_requests)"
    by (simp add: min.commute)
  {
    assume "merge_requests = []"
    with l show "list_merge_requests tw current state
              = ''No '' @ state @ '' merge requests found in project '' @ pid @ ''.''"
      by simp
  }
  {
    assume "merge_requests \<noteq> []"
    with l show "list_merge_requests tw current state
              = ''# '' @ clipboard @ '' Merge Requests in Project '' @ pid @ nl @ nl
                @ ''**Filter:** '' @ state @ '' | **Total:** ''
                @ str_nat (length merge_requests) @ nl @ nl
                @ ''---'' @ nl @ nl
                @ join (nl @ nl) (map format_mr (take 10 merge_requests))
                @ (if length merge_requests > 10 then
                     nl @ nl @ ''---'' @ nl @ nl @ ''*... and ''
                       @ str_nat (length merge_requests - 10) @ '' more merge requests*''
                   else [])"
      by (simp add: render_list_def mr_entries_take)
  }
  {
    assume twelve: "length merge_requests = 12"
    then show "length (map format_mr (take 10 merge_requests)) = 10"
      by simp
    from twelve have "merge_requests \<noteq> []"
      by auto
    with l twelve show "list_merge_requests tw current state
              = ''# '' @ clipboard @ '' Merge Requests in Project '' @ pid @ nl @ nl
                @ ''**Filter:** '' @ state @ '' | **Total:** '' @ str_nat 12 @ nl @ nl
                @ ''---'' @ nl @ nl
                @ join (nl @ nl) (map format_mr (take 10 merge_requests))
                @ nl @ nl @ ''---'' @ nl @ nl @ ''*... and 2 more merge requests*''"
      by (simp add: render_list_def mr_entries_take str_nat_2)
  }
qed

lemma ex_fetched:
  "decrypt_token ex_tool_world (access_token_encrypted ex_lab) = Inr ''token''"
  "get_merge_requests ex_tool_world
     (gitlab_url ex_lab @ ''/api/v4/projects/'' @ ''8'' @ ''/merge_requests'') ''token'' ''opened''
     = Fetched (map ex_mr [1..<13])"
  "project_id ex_lab = Some ''8''"
  by (simp_all add: ex_lab_def ex_tool_world_def ex_decrypt_def ex_fetch_def)

theorem list_caps_at_ten_witness:
  "length (map format_mr (take 10 (map ex_mr [1..<13]))) = 10
   \<and> list_merge_requests ex_tool_world (Some ex_lab) ''opened''
       = ''# '' @ clipboard @ '' Merge Requests in Project '' @ ''8'' @ nl @ nl
         @ ''**Filter:** '' @ ''opened'' @ '' | **Total:** '' @ str_nat 12 @ nl @ nl
         @ ''---'' @ nl @ nl
         @ join (nl @ nl) (map format_mr (take 10 (map ex_mr [1..<13])))
         @ nl @ nl @ ''---'' @ nl @ nl @ ''*... and 2 more merge requests*''"
proof -
  have len: "length (map ex_mr [1..<13]) = 12"
    by simp
  have pid: "''8'' \<noteq> []"
    by simp
  note t = list_caps_at_ten [OF refl ex_fetched(3) pid ex_fetched(1) ex_fetched(2)]
  from t len show ?thesis
    by blast
qed

end
